theory Spec2Isabelle
  imports Complex_Main "HOL-Library.Word"
begin

section \<open>JavaScript numbers\<close>

text \<open>
  The program computes with JavaScript numbers. They are modelled as the real numbers
  extended with the three special values of the language: positive infinity, negative
  infinity and NaN. Finite arithmetic is exact (no rounding, no overflow to infinity),
  and there is one zero, taken as positive where a sign of zero would matter
  (division of a non-zero number by zero).
\<close>

datatype jsnum = Fin real | PInf | NInf | NaN

fun js_neg :: "jsnum \<Rightarrow> jsnum" where
  "js_neg (Fin a) = Fin (- a)"
| "js_neg PInf = NInf"
| "js_neg NInf = PInf"
| "js_neg NaN = NaN"

fun js_add :: "jsnum \<Rightarrow> jsnum \<Rightarrow> jsnum" where
  "js_add (Fin a) (Fin b) = Fin (a + b)"
| "js_add NaN _ = NaN"
| "js_add _ NaN = NaN"
| "js_add PInf NInf = NaN"
| "js_add NInf PInf = NaN"
| "js_add PInf _ = PInf"
| "js_add _ PInf = PInf"
| "js_add NInf _ = NInf"
| "js_add _ NInf = NInf"

definition js_sub :: "jsnum \<Rightarrow> jsnum \<Rightarrow> jsnum" where
  "js_sub a b = js_add a (js_neg b)"

text \<open>The sign of a number that is not NaN: \<open>-1\<close>, \<open>0\<close> or \<open>1\<close>.\<close>

fun js_sign :: "jsnum \<Rightarrow> int" where
  "js_sign (Fin a) = (if a < 0 then - 1 else if a = 0 then 0 else 1)"
| "js_sign PInf = 1"
| "js_sign NInf = - 1"
| "js_sign NaN = 0"

fun js_mul :: "jsnum \<Rightarrow> jsnum \<Rightarrow> jsnum" where
  "js_mul (Fin a) (Fin b) = Fin (a * b)"
| "js_mul NaN _ = NaN"
| "js_mul _ NaN = NaN"
| "js_mul a b =
     (if js_sign a * js_sign b = 0 then NaN
      else if js_sign a * js_sign b < 0 then NInf else PInf)"

fun js_div :: "jsnum \<Rightarrow> jsnum \<Rightarrow> jsnum" where
  "js_div (Fin a) (Fin b) =
     (if b \<noteq> 0 then Fin (a / b)
      else if a = 0 then NaN else if a < 0 then NInf else PInf)"
| "js_div NaN _ = NaN"
| "js_div _ NaN = NaN"
| "js_div (Fin a) _ = Fin 0"
| "js_div PInf (Fin b) = (if b < 0 then NInf else PInf)"
| "js_div NInf (Fin b) = (if b < 0 then PInf else NInf)"
| "js_div _ _ = NaN"

text \<open>Comparisons: every comparison with NaN is false.\<close>

fun js_lt :: "jsnum \<Rightarrow> jsnum \<Rightarrow> bool" where
  "js_lt (Fin a) (Fin b) = (a < b)"
| "js_lt NaN _ = False"
| "js_lt _ NaN = False"
| "js_lt PInf _ = False"
| "js_lt _ NInf = False"
| "js_lt _ PInf = True"
| "js_lt NInf _ = True"

definition js_le :: "jsnum \<Rightarrow> jsnum \<Rightarrow> bool" where
  "js_le a b = (js_lt a b \<or> (a = b \<and> a \<noteq> NaN))"

definition js_gt :: "jsnum \<Rightarrow> jsnum \<Rightarrow> bool" where
  "js_gt a b = js_lt b a"

definition js_ge :: "jsnum \<Rightarrow> jsnum \<Rightarrow> bool" where
  "js_ge a b = js_le b a"

text \<open>\<open>Math.max\<close> and \<open>Math.min\<close> of two arguments: NaN if either is NaN.\<close>

definition js_max :: "jsnum \<Rightarrow> jsnum \<Rightarrow> jsnum" where
  "js_max a b = (if a = NaN \<or> b = NaN then NaN else if js_lt a b then b else a)"

definition js_min :: "jsnum \<Rightarrow> jsnum \<Rightarrow> jsnum" where
  "js_min a b = (if a = NaN \<or> b = NaN then NaN else if js_lt b a then b else a)"

text \<open>\<open>Math.round\<close>: the nearest integer, halves rounded up.\<close>

fun js_round :: "jsnum \<Rightarrow> jsnum" where
  "js_round (Fin a) = Fin (of_int \<lfloor>a + 1 / 2\<rfloor>)"
| "js_round x = x"

text \<open>\<open>Math.sqrt\<close>, \<open>Math.log10\<close> and \<open>Math.pow(10, y)\<close>.\<close>

fun js_sqrt :: "jsnum \<Rightarrow> jsnum" where
  "js_sqrt (Fin a) = (if a < 0 then NaN else Fin (sqrt a))"
| "js_sqrt PInf = PInf"
| "js_sqrt _ = NaN"

fun js_log10 :: "jsnum \<Rightarrow> jsnum" where
  "js_log10 (Fin a) = (if a < 0 then NaN else if a = 0 then NInf else Fin (log 10 a))"
| "js_log10 PInf = PInf"
| "js_log10 _ = NaN"

fun js_pow10 :: "jsnum \<Rightarrow> jsnum" where
  "js_pow10 (Fin a) = Fin (10 powr a)"
| "js_pow10 PInf = PInf"
| "js_pow10 NInf = Fin 0"
| "js_pow10 NaN = NaN"

text \<open>Truthiness of a number: every number but zero and NaN.\<close>

definition js_truthy :: "jsnum \<Rightarrow> bool" where
  "js_truthy a = (a \<noteq> Fin 0 \<and> a \<noteq> NaN)"


section \<open>NoiseClassifier\<close>

subsection \<open>The classification table\<close>

datatype zone = Quiet | Comfortable | Moderate | Loud | Dangerous | Emergency

text \<open>
  The \<open>hearingProtection\<close> property of a table entry is \<open>false\<close> or a text.
\<close>

datatype protection = NoProtection | Protection string

text \<open>
  One entry of \<open>this.classifications\<close>. The property \<open>range\<close> of the source is the
  field \<open>range_id\<close> here. The fields that only carry display text
  (description, colour, examples, health information, message, recommendation) are left out.
\<close>

record classification =
  range_id :: zone
  minDb :: real
  maxDb :: real
  category :: string
  riskZone :: string
  riskLevel :: string
  safeTime :: string
  oshaCompliant :: bool
  hearingProtection :: protection

definition classifications :: "classification list" where
  "classifications =
    [\<lparr>range_id = Quiet, minDb = 0, maxDb = 40, category = ''Quiet'', riskZone = ''green'',
      riskLevel = ''minimal'', safeTime = ''unlimited'', oshaCompliant = True,
      hearingProtection = NoProtection\<rparr>,
     \<lparr>range_id = Comfortable, minDb = 40, maxDb = 55, category = ''Comfortable'',
      riskZone = ''green'', riskLevel = ''minimal'', safeTime = ''unlimited'',
      oshaCompliant = True, hearingProtection = NoProtection\<rparr>,
     \<lparr>range_id = Moderate, minDb = 55, maxDb = 70, category = ''Moderate'',
      riskZone = ''yellow'', riskLevel = ''low'', safeTime = ''unlimited'',
      oshaCompliant = True, hearingProtection = NoProtection\<rparr>,
     \<lparr>range_id = Loud, minDb = 70, maxDb = 85, category = ''Loud'', riskZone = ''orange'',
      riskLevel = ''moderate'', safeTime = ''8 hours (OSHA limit)'', oshaCompliant = True,
      hearingProtection = Protection ''recommended for extended exposure''\<rparr>,
     \<lparr>range_id = Dangerous, minDb = 85, maxDb = 100, category = ''Dangerous'',
      riskZone = ''red'', riskLevel = ''high'',
      safeTime = ''8 hours maximum with protection'', oshaCompliant = False,
      hearingProtection = Protection ''required''\<rparr>,
     \<lparr>range_id = Emergency, minDb = 100, maxDb = 140, category = ''Emergency Level'',
      riskZone = ''red'', riskLevel = ''critical'', safeTime = ''15 minutes maximum'',
      oshaCompliant = False,
      hearingProtection = Protection ''maximum protection required''\<rparr>]"

subsection \<open>classify\<close>

text \<open>
  The result of \<open>classify\<close>: the table entry that was chosen, and the rounded level
  stored with it as \<open>currentDb\<close>.
\<close>

record classified =
  entry :: classification
  currentDb :: jsnum

text \<open>
  The loop over the table: the first entry with \<open>minDb \<le> dbLevel < maxDb\<close>, if any.
\<close>

fun classify_scan :: "classification list \<Rightarrow> jsnum \<Rightarrow> classification option" where
  "classify_scan [] dbLevel = None"
| "classify_scan (c # cs) dbLevel =
     (if js_ge dbLevel (Fin (minDb c)) \<and> js_lt dbLevel (Fin (maxDb c)) then Some c
      else classify_scan cs dbLevel)"

text \<open>
  When the loop finds nothing, the last entry of the table is returned. The table is a
  constant with six entries, so \<open>last\<close> is defined.
\<close>

definition classify :: "jsnum \<Rightarrow> classified" where
  "classify dbLevel =
     (case classify_scan classifications dbLevel of
        Some c \<Rightarrow> \<lparr>entry = c, currentDb = js_round dbLevel\<rparr>
      | None \<Rightarrow> \<lparr>entry = last classifications, currentDb = js_round dbLevel\<rparr>)"


subsection \<open>Safe exposure time and dose\<close>

definition calculateSafeExposureTime :: "jsnum \<Rightarrow> jsnum" where
  "calculateSafeExposureTime dbLevel =
     (if js_le dbLevel (Fin 85) then Fin 8
      else if js_le dbLevel (Fin 90) then Fin 8
      else if js_le dbLevel (Fin 92) then Fin 4
      else if js_le dbLevel (Fin 95) then Fin 2
      else if js_le dbLevel (Fin 97) then Fin 1
      else if js_le dbLevel (Fin 100) then Fin (25 / 100)
      else if js_le dbLevel (Fin 105) then Fin (17 / 1000)
      else Fin 0)"

definition calculateExposureDose :: "jsnum \<Rightarrow> jsnum \<Rightarrow> jsnum" where
  "calculateExposureDose timeWeightedAverage durationSeconds =
     (let durationHours = js_div durationSeconds (Fin 3600);
          safeHours = calculateSafeExposureTime timeWeightedAverage
      in if safeHours = Fin 0 then Fin 100
         else js_min (Fin 100) (js_mul (js_div durationHours safeHours) (Fin 100)))"

subsection \<open>Time-weighted average\<close>

text \<open>
  A measurement handed to the classifier: a level and a duration. The duration may be
  absent (\<open>None\<close>), as in the measurements of the history, which carry none.
\<close>

record measurement =
  db :: jsnum
  duration :: "jsnum option"

text \<open>
  \<open>measurement.duration || 1\<close>: the duration, or 1 when it is absent, zero or NaN.
\<close>

definition duration_or_1 :: "measurement \<Rightarrow> jsnum" where
  "duration_or_1 m =
     (case duration m of
        None \<Rightarrow> Fin 1
      | Some d \<Rightarrow> if js_truthy d then d else Fin 1)"

text \<open>
  The body of the \<open>forEach\<close>, threading \<open>totalEnergyExposure\<close> and \<open>totalTime\<close>.
\<close>

fun twa_loop :: "measurement list \<Rightarrow> jsnum \<times> jsnum \<Rightarrow> jsnum \<times> jsnum" where
  "twa_loop [] (totalEnergyExposure, totalTime) = (totalEnergyExposure, totalTime)"
| "twa_loop (m # ms) (totalEnergyExposure, totalTime) =
     (let energy = js_pow10 (js_div (db m) (Fin 10));
          time = duration_or_1 m
      in twa_loop ms (js_add totalEnergyExposure (js_mul energy time), js_add totalTime time))"

definition calculateTimeWeightedAverage :: "measurement list \<Rightarrow> jsnum" where
  "calculateTimeWeightedAverage measurements =
     (if measurements = [] then Fin 0
      else
        (let (totalEnergyExposure, totalTime) = twa_loop measurements (Fin 0, Fin 0)
         in if totalTime = Fin 0 then Fin 0
            else js_mul (Fin 10) (js_log10 (js_div totalEnergyExposure totalTime))))"

subsection \<open>Health dashboard\<close>

record compliance_flags =
  osha :: bool
  niosh :: bool
  who :: bool

text \<open>
  The numbers and the compliance flags of the dashboard. Its other parts (personal risk,
  patterns, health goals, reduction plan, alerts) are computed beside the flags and do not
  enter them; they are left out.
\<close>

record dashboard =
  timeWeightedAverage :: jsnum
  maxExposure :: jsnum
  averageExposure :: jsnum
  compliance :: compliance_flags

datatype dashboard_result = InsufficientData | Dashboard dashboard

definition generateHealthDashboard :: "measurement list \<Rightarrow> jsnum \<Rightarrow> dashboard_result" where
  "generateHealthDashboard measurements currentDb' =
     (if measurements = [] then InsufficientData
      else
        (let twa = calculateTimeWeightedAverage measurements;
             maxE = foldl js_max NInf (map db measurements);
             averageE = js_div (foldl js_add (Fin 0) (map db measurements))
                          (Fin (real (length measurements)))
         in Dashboard
              \<lparr>timeWeightedAverage = js_round twa,
               maxExposure = js_round maxE,
               averageExposure = js_round averageE,
               compliance = \<lparr>osha = js_le twa (Fin 90), niosh = js_le twa (Fin 85),
                              who = js_le averageE (Fin 55)\<rparr>\<rparr>))"


subsection \<open>Premium health analysis\<close>

definition assessStressRisk :: "jsnum \<Rightarrow> jsnum \<Rightarrow> string" where
  "assessStressRisk dbLevel duration' =
     (let durationHours = js_div duration' (Fin 3600)
      in if js_ge dbLevel (Fin 75) \<and> js_gt durationHours (Fin 2) then ''high''
         else if js_ge dbLevel (Fin 65) \<and> js_gt durationHours (Fin 4) then ''moderate''
         else if js_ge dbLevel (Fin 60) \<and> js_gt durationHours (Fin 8) then ''low''
         else ''minimal'')"

definition assessSleepDisruptionRisk :: "jsnum \<Rightarrow> string" where
  "assessSleepDisruptionRisk dbLevel =
     (if js_ge dbLevel (Fin 45) then ''high''
      else if js_ge dbLevel (Fin 40) then ''moderate''
      else if js_ge dbLevel (Fin 35) then ''low''
      else ''minimal'')"

text \<open>
  The object that \<open>generatePremiumHealthAnalysis\<close> returns, without its two lists of
  texts (concerns and recommendations). The properties \<open>riskLevel\<close>, \<open>oshaCompliant\<close>,
  \<open>timeWeightedAverage\<close> and \<open>classification\<close> of the source carry the prefix
  \<open>analysis\<close> here.
\<close>

record health_analysis =
  analysis_riskLevel :: string
  analysis_oshaCompliant :: bool
  nioshCompliant :: bool
  analysis_timeWeightedAverage :: jsnum
  safeExposureTime :: jsnum
  analysis_classification :: classified
  exposureDose :: jsnum
  hearingProtectionRequired :: bool
  stressRisk :: string
  sleepDisruptionRisk :: string

definition generatePremiumHealthAnalysis :: "jsnum \<Rightarrow> jsnum \<Rightarrow> jsnum \<Rightarrow> health_analysis" where
  "generatePremiumHealthAnalysis dbLevel duration' twa =
     \<lparr>analysis_riskLevel =
        (if js_ge twa (Fin 90) then ''high''
         else if js_ge twa (Fin 85) then ''moderate''
         else if js_ge dbLevel (Fin 100) then ''high''
         else if js_ge dbLevel (Fin 85) then ''moderate''
         else ''low''),
      analysis_oshaCompliant = js_le twa (Fin 85),
      nioshCompliant = js_le twa (Fin 85),
      analysis_timeWeightedAverage = js_round twa,
      safeExposureTime = calculateSafeExposureTime twa,
      analysis_classification = classify dbLevel,
      exposureDose = calculateExposureDose twa duration',
      hearingProtectionRequired = (js_ge twa (Fin 85) \<or> js_ge dbLevel (Fin 100)),
      stressRisk = assessStressRisk dbLevel duration',
      sleepDisruptionRisk = assessSleepDisruptionRisk dbLevel\<rparr>"


section \<open>Session statistics of the extended measurement\<close>

subsection \<open>Percentiles\<close>

text \<open>
  Reading an array at an index: \<open>undefined\<close> (\<open>None\<close>) outside the array.
\<close>

definition at_index :: "real list \<Rightarrow> int \<Rightarrow> real option" where
  "at_index xs i = (if 0 \<le> i \<and> i < int (length xs) then Some (xs ! nat i) else None)"

text \<open>
  \<open>calculatePercentile\<close> of the extended measurement. The values are finite numbers, and
  the comparator \<open>a - b\<close> sorts them in ascending order. The result is \<open>undefined\<close>
  (\<open>None\<close>) when the index of the percentile is an integer outside the array, and NaN
  when the interpolation reads outside the array.
\<close>

definition calculatePercentile :: "real list \<Rightarrow> real \<Rightarrow> jsnum option" where
  "calculatePercentile values percentile =
     (let sorted = sort values;
          index = (percentile / 100) * (real (length sorted) - 1);
          lower = \<lfloor>index\<rfloor>;
          upper = \<lceil>index\<rceil>
      in if lower = upper then map_option Fin (at_index sorted lower)
         else
           (let weight = index - of_int lower
            in case (at_index sorted lower, at_index sorted upper) of
                 (Some a, Some b) \<Rightarrow> Some (Fin (a * (1 - weight) + b * weight))
               | _ \<Rightarrow> Some NaN))"

text \<open>
  \<open>calculatePercentile\<close> of the history: zero on no values, the value itself at an
  integer index, and the interpolation rounded to one decimal otherwise.
\<close>

definition history_calculatePercentile :: "real list \<Rightarrow> real \<Rightarrow> jsnum option" where
  "history_calculatePercentile values percentile =
     (if values = [] then Some (Fin 0)
      else
        (let sorted = sort values;
             index = (percentile / 100) * (real (length sorted) - 1)
         in if index = of_int \<lfloor>index\<rfloor> then map_option Fin (at_index sorted \<lfloor>index\<rfloor>)
            else
              (let lower = \<lfloor>index\<rfloor>;
                   upper = \<lceil>index\<rceil>;
                   weight = index - of_int lower
               in case (at_index sorted lower, at_index sorted upper) of
                    (Some a, Some b) \<Rightarrow>
                      Some (js_div (js_round (Fin ((a * (1 - weight) + b * weight) * 10)))
                              (Fin 10))
                  | _ \<Rightarrow> Some NaN)))"

subsection \<open>Time-weighted exposure\<close>

text \<open>
  A reading of the extended measurement: the time in milliseconds since the session
  started and the level (the property \<open>db\<close> of the source; the field is named
  \<open>reading_db\<close> to keep it apart from the level of a classifier measurement). The
  zone text stored with each reading is not read by the statistics and is left out.
\<close>

record reading =
  timestamp :: int
  reading_db :: jsnum

definition calculateExposureRisk :: "jsnum \<Rightarrow> jsnum \<Rightarrow> string" where
  "calculateExposureRisk db' timeSeconds =
     (let timeHours = js_div timeSeconds (Fin 3600)
      in if js_ge db' (Fin 100) then ''immediate-danger''
         else if js_ge db' (Fin 95)
           then (if js_gt timeHours (Fin (25 / 100)) then ''high'' else ''moderate'')
         else if js_ge db' (Fin 90)
           then (if js_gt timeHours (Fin (5 / 10)) then ''high'' else ''moderate'')
         else if js_ge db' (Fin 85)
           then (if js_gt timeHours (Fin 8) then ''high'' else ''low'')
         else ''minimal'')"

text \<open>
  The loop over consecutive readings: the level of the earlier reading is weighted with
  the time to the next one, in seconds.
\<close>

fun twe_loop :: "reading list \<Rightarrow> jsnum \<times> real \<Rightarrow> jsnum \<times> real" where
  "twe_loop (current # next # rest) (totalEnergy, totalTime) =
     (let timeInterval = real_of_int (timestamp next - timestamp current) / 1000;
          energy = js_pow10 (js_div (reading_db current) (Fin 10))
      in twe_loop (next # rest)
           (js_add totalEnergy (js_mul energy (Fin timeInterval)), totalTime + timeInterval))"
| "twe_loop _ (totalEnergy, totalTime) = (totalEnergy, totalTime)"

text \<open>
  The object that \<open>calculateTimeWeightedExposure\<close> returns; its properties \<open>value\<close>,
  \<open>totalTime\<close> and \<open>oshaCompliant\<close> carry the prefix \<open>exposure\<close> here.
\<close>

record exposure =
  exposure_value :: jsnum
  exposure_totalTime :: real
  exposure_oshaCompliant :: bool
  exposureRisk :: string

text \<open>The result is \<open>null\<close> (\<open>None\<close>) when there are no readings.\<close>

definition calculateTimeWeightedExposure :: "reading list \<Rightarrow> exposure option" where
  "calculateTimeWeightedExposure extendedMeasurements =
     (if extendedMeasurements = [] then None
      else
        (let (totalEnergy, totalTime) = twe_loop extendedMeasurements (Fin 0, 0);
             timeWeightedDb =
               (if totalTime > 0
                then js_mul (Fin 10) (js_log10 (js_div totalEnergy (Fin totalTime)))
                else Fin 0)
         in Some \<lparr>exposure_value = timeWeightedDb,
                  exposure_totalTime = totalTime,
                  exposure_oshaCompliant = js_lt timeWeightedDb (Fin 85),
                  exposureRisk = calculateExposureRisk timeWeightedDb (Fin totalTime)\<rparr>))"


section \<open>AudioProcessor\<close>

subsection \<open>State\<close>

text \<open>
  An exception of the program, with its message.
\<close>

datatype js_error = Error string

text \<open>
  The analyser node of the Web Audio API, as the processor configures it. The field
  \<open>analyser\<close> of the processor is \<open>null\<close> (\<open>None\<close>) until the audio nodes are set up.
\<close>

record analyser_node =
  fftSize :: nat
  smoothingTimeConstant :: real

text \<open>
  The fields of the processor that the level computation and the calibration read or
  write. A sample frame is a \<open>Uint8Array\<close>: a list of bytes.
\<close>

record audio_processor =
  analyser :: "analyser_node option"
  timeDataArray :: "8 word list option"
  isInitialized :: bool
  isActive :: bool
  isMeasuring :: bool
  calibrationOffset :: jsnum
  referenceLevel :: jsnum
  lastUpdateTime :: real
  updateInterval :: real
  currentDecibels :: jsnum

text \<open>The state the constructor leaves.\<close>

definition new_AudioProcessor :: audio_processor where
  "new_AudioProcessor =
     \<lparr>analyser = None, timeDataArray = None, isInitialized = False, isActive = False,
      isMeasuring = False, calibrationOffset = Fin 0, referenceLevel = Fin 94,
      lastUpdateTime = 0, updateInterval = 1000 / 60, currentDecibels = Fin 0\<rparr>"

subsection \<open>From a sample frame to decibels\<close>

text \<open>
  \<open>calculateRMS\<close>: each byte is moved from the range 0..255 to the range -1..1, the
  squares are summed by the loop, and the square root of the mean is returned. On an
  empty frame the mean is \<open>0 / 0\<close>.
\<close>

definition amplitude :: "8 word \<Rightarrow> real" where
  "amplitude b = (real (unat b) - 128) / 128"

fun calculateRMS_loop :: "8 word list \<Rightarrow> real \<Rightarrow> real" where
  "calculateRMS_loop [] acc = acc"
| "calculateRMS_loop (b # bs) acc =
     calculateRMS_loop bs (acc + amplitude b * amplitude b)"

definition calculateRMS :: "8 word list \<Rightarrow> jsnum" where
  "calculateRMS timeData =
     js_sqrt (js_div (Fin (calculateRMS_loop timeData 0)) (Fin (real (length timeData))))"

definition convertRMSToDecibels :: "jsnum \<Rightarrow> jsnum" where
  "convertRMSToDecibels rms =
     (if js_le rms (Fin 0) then NInf
      else js_add (js_mul (Fin 20) (js_log10 rms)) (Fin 94))"

subsection \<open>getCurrentDecibels\<close>

text \<open>
  The operation reads two things from its environment: the clock (\<open>now\<close>, the value of
  \<open>performance.now()\<close>) and the analyser (\<open>sampled\<close>, what
  \<open>getByteTimeDomainData\<close> does when called: it throws, or it fills the buffer with a
  frame). It returns the level and the processor afterwards. Whatever is thrown inside
  the \<open>try\<close> block is caught there, so the operation itself never throws.
\<close>

definition getCurrentDecibels ::
  "audio_processor \<Rightarrow> real \<Rightarrow> js_error + 8 word list \<Rightarrow> jsnum \<times> audio_processor" where
  "getCurrentDecibels this now sampled =
     (if \<not> isInitialized this \<or> \<not> isMeasuring this \<or> analyser this = None then (Fin 0, this)
      else if now - lastUpdateTime this < updateInterval this then (currentDecibels this, this)
      else (case sampled of
              Inl e \<Rightarrow>
                (if js_truthy (currentDecibels this) then currentDecibels this else Fin 0, this)
            | Inr frame \<Rightarrow>
                (let rms = calculateRMS frame;
                     db = convertRMSToDecibels rms;
                     db = js_add db (calibrationOffset this);
                     db = js_max (Fin 20) (js_min (Fin 140) db)
                 in (db, this\<lparr>timeDataArray := Some frame, currentDecibels := db,
                                lastUpdateTime := now\<rparr>))))"

subsection \<open>calibrate\<close>

text \<open>
  \<open>calibrate\<close> throws when the processor is not initialized or not measuring. Otherwise
  it sets the offset to zero, takes a reading through \<open>getCurrentDecibels\<close>, and stores
  the previous offset plus the difference between the reference and that reading.
  Writing the offset to local storage changes no field of the processor, and a failure
  to write is caught; it is not part of the model.
\<close>

definition calibrate ::
  "audio_processor \<Rightarrow> jsnum \<Rightarrow> real \<Rightarrow> js_error + 8 word list
     \<Rightarrow> js_error + jsnum \<times> audio_processor" where
  "calibrate this referenceLevel' now sampled =
     (if \<not> isInitialized this \<or> \<not> isMeasuring this
      then Inl (Error ''Cannot calibrate: AudioProcessor not initialized or not measuring'')
      else
        (let originalOffset = calibrationOffset this;
             this1 = this\<lparr>calibrationOffset := Fin 0\<rparr>;
             (currentReading, this2) = getCurrentDecibels this1 now sampled;
             newOffset = js_sub referenceLevel' currentReading;
             this3 = this2\<lparr>calibrationOffset := js_add originalOffset newOffset,
                           referenceLevel := referenceLevel'\<rparr>
         in Inr (calibrationOffset this3, this3)))"


section \<open>The time-weighted average of the specification\<close>

text \<open>
  The specification's formula, for a sequence of pairs of a level in dB and a duration:
  ten times the decimal logarithm of the sum of \<open>10^(level/10) * duration\<close> divided by the
  sum of the durations. For readings with timestamps, the pairs are the level of each
  reading but the last and the time gap to the next reading, which is the difference of
  the two timestamps (in milliseconds).
\<close>

definition spec_energy :: "(real \<times> real) list \<Rightarrow> real" where
  "spec_energy vds = (\<Sum>(v, d)\<leftarrow>vds. 10 powr (v / 10) * d)"

definition spec_total_time :: "(real \<times> real) list \<Rightarrow> real" where
  "spec_total_time vds = (\<Sum>(v, d)\<leftarrow>vds. d)"

definition spec_twa :: "(real \<times> real) list \<Rightarrow> real" where
  "spec_twa vds = 10 * log 10 (spec_energy vds / spec_total_time vds)"

fun spec_intervals :: "(int \<times> real) list \<Rightarrow> (real \<times> real) list" where
  "spec_intervals ((t, v) # (t', v') # rest) =
     (v, real_of_int (t' - t)) # spec_intervals ((t', v') # rest)"
| "spec_intervals _ = []"


section \<open>Properties of the classifier\<close>

subsection \<open>Zones\<close>

lemma classify_scan_table:
  "classify_scan classifications (Fin v) =
     (if 0 \<le> v \<and> v < 40 then Some (classifications ! 0)
      else if 40 \<le> v \<and> v < 55 then Some (classifications ! 1)
      else if 55 \<le> v \<and> v < 70 then Some (classifications ! 2)
      else if 70 \<le> v \<and> v < 85 then Some (classifications ! 3)
      else if 85 \<le> v \<and> v < 100 then Some (classifications ! 4)
      else if 100 \<le> v \<and> v < 140 then Some (classifications ! 5)
      else None)"
  by (simp add: classifications_def js_ge_def js_le_def)

lemma classify_scan_PInf: "classify_scan classifications PInf = None"
  by (simp add: classifications_def js_ge_def js_le_def)

lemma last_classifications: "last classifications = classifications ! 5"
  by (simp add: classifications_def)

lemma range_id_table:
  "map range_id classifications = [Quiet, Comfortable, Moderate, Loud, Dangerous, Emergency]"
  by (simp add: classifications_def)

lemma classify_range_Fin:
  "range_id (entry (classify (Fin v))) =
     (if 0 \<le> v \<and> v < 40 then Quiet else if 40 \<le> v \<and> v < 55 then Comfortable
      else if 55 \<le> v \<and> v < 70 then Moderate else if 70 \<le> v \<and> v < 85 then Loud
      else if 85 \<le> v \<and> v < 100 then Dangerous else Emergency)"
  by (simp add: classify_def classify_scan_table last_classifications)
     (simp add: classifications_def)

text \<open>
  Claim C2. The six entries of the table are, in order, quiet, comfortable, moderate,
  loud, dangerous and emergency; the upper bound of each entry is the lower bound of the
  next, so the ranges neither overlap nor leave a gap. For every finite level \<open>v \<ge> 0\<close>,
  \<open>classify\<close> returns the one zone whose half-open range holds \<open>v\<close>, the range of the
  emergency zone being unbounded above: a level at or above the upper bound 140 of the
  last entry, and positive infinity, are classified as emergency. \<open>classify\<close> has no
  error result.
\<close>

theorem classify_partition:
  "map maxDb (butlast classifications) = map minDb (tl classifications)
   \<and> map range_id classifications = [Quiet, Comfortable, Moderate, Loud, Dangerous, Emergency]
   \<and> map minDb classifications = [0, 40, 55, 70, 85, 100]
   \<and> maxDb (last classifications) = 140
   \<and> (\<forall>v. 0 \<le> v \<longrightarrow>
        range_id (entry (classify (Fin v))) =
          (if v < 40 then Quiet else if v < 55 then Comfortable else if v < 70 then Moderate
           else if v < 85 then Loud else if v < 100 then Dangerous else Emergency))
   \<and> range_id (entry (classify PInf)) = Emergency"
proof -
  have tab: "map maxDb (butlast classifications) = map minDb (tl classifications)"
    "map minDb classifications = [0, 40, 55, 70, 85, 100]"
    "maxDb (last classifications) = 140"
    by (simp_all add: classifications_def)
  have fin: "range_id (entry (classify (Fin v))) =
          (if v < 40 then Quiet else if v < 55 then Comfortable else if v < 70 then Moderate
           else if v < 85 then Loud else if v < 100 then Dangerous else Emergency)"
    if "0 \<le> v" for v
    using that by (simp add: classify_range_Fin)
  have "range_id (last classifications) = Emergency"
    by (simp add: classifications_def)
  then have inf: "range_id (entry (classify PInf)) = Emergency"
    by (simp add: classify_def classify_scan_PInf)
  show ?thesis using tab range_id_table fin inf by blast
qed

theorem classify_partition_witness:
  "(0::real) \<le> 72 \<and> range_id (entry (classify (Fin 72))) = Loud
   \<and> (0::real) \<le> 140 \<and> range_id (entry (classify (Fin 140))) = Emergency"
  using classify_partition by simp

text \<open>
  Claim C3. A level below zero is to be classified as quiet. The loop of \<open>classify\<close>
  finds no entry for such a level, since the lowest lower bound is 0, and the default
  after the loop returns the last entry of the table: at \<open>-5\<close> the result is the emergency
  zone, not the quiet zone.
\<close>

theorem classify_negative_is_emergency:
  "classify (Fin (- 5)) = \<lparr>entry = classifications ! 5, currentDb = Fin (- 5)\<rparr>
   \<and> range_id (entry (classify (Fin (- 5)))) = Emergency
   \<and> range_id (entry (classify (Fin (- 5)))) \<noteq> Quiet"
  by (simp add: classify_def classify_scan_table last_classifications)
     (simp add: classifications_def)

subsection \<open>Safe exposure time\<close>

lemma calculateSafeExposureTime_Fin:
  "calculateSafeExposureTime (Fin v) =
     (if v \<le> 90 then Fin 8 else if v \<le> 92 then Fin 4 else if v \<le> 95 then Fin 2
      else if v \<le> 97 then Fin 1 else if v \<le> 100 then Fin (25 / 100)
      else if v \<le> 105 then Fin (17 / 1000) else Fin 0)"
  by (simp add: calculateSafeExposureTime_def js_le_def)

text \<open>
  Claim C4, as stated, gives 4 hours at 90 dB. The function returns 8 hours there: its
  second test, \<open>dbLevel \<le> 90\<close>, returns the same 8 hours as the first.
\<close>

theorem safe_exposure_at_90_is_8:
  "calculateSafeExposureTime (Fin 90) = Fin 8 \<and> calculateSafeExposureTime (Fin 90) \<noteq> Fin 4"
  by (simp add: calculateSafeExposureTime_Fin)

text \<open>
  Claim C4, amended. The safe exposure time is a step function of the level: 8 hours
  up to and including 90 dB, 4 hours above 90 up to 92, 2 hours above 92 up to 95,
  1 hour above 95 up to 97, a quarter of an hour above 97 up to 100, 0.017 hours (about
  one minute) above 100 up to 105, and 0 above 105 dB (also at positive infinity and at
  NaN).
\<close>

theorem safe_exposure_steps:
  "calculateSafeExposureTime (Fin v) =
     (if v \<le> 90 then Fin 8 else if v \<le> 92 then Fin 4 else if v \<le> 95 then Fin 2
      else if v \<le> 97 then Fin 1 else if v \<le> 100 then Fin (25 / 100)
      else if v \<le> 105 then Fin (17 / 1000) else Fin 0)
   \<and> calculateSafeExposureTime PInf = Fin 0
   \<and> calculateSafeExposureTime NInf = Fin 8
   \<and> calculateSafeExposureTime NaN = Fin 0"
  by (simp add: calculateSafeExposureTime_Fin) (simp add: calculateSafeExposureTime_def js_le_def)

theorem safe_exposure_steps_witness:
  "calculateSafeExposureTime (Fin 85) = Fin 8 \<and> calculateSafeExposureTime (Fin 92) = Fin 4
   \<and> calculateSafeExposureTime (Fin 95) = Fin 2 \<and> calculateSafeExposureTime (Fin 97) = Fin 1
   \<and> calculateSafeExposureTime (Fin 100) = Fin (25 / 100)
   \<and> calculateSafeExposureTime (Fin 105) = Fin (17 / 1000)
   \<and> calculateSafeExposureTime (Fin 106) = Fin 0"
  using safe_exposure_steps [of 85] safe_exposure_steps [of 92] safe_exposure_steps [of 95]
    safe_exposure_steps [of 97] safe_exposure_steps [of 100] safe_exposure_steps [of 105]
    safe_exposure_steps [of 106]
  by simp


section \<open>Properties of the audio processor\<close>

subsection \<open>Fresh readings\<close>

lemma getCurrentDecibels_fresh:
  "isInitialized this \<Longrightarrow> isMeasuring this \<Longrightarrow> analyser this \<noteq> None \<Longrightarrow>
   updateInterval this \<le> now - lastUpdateTime this \<Longrightarrow>
   getCurrentDecibels this now (Inr frame) =
     (js_max (Fin 20) (js_min (Fin 140)
        (js_add (convertRMSToDecibels (calculateRMS frame)) (calibrationOffset this))),
      this\<lparr>timeDataArray := Some frame,
        currentDecibels := js_max (Fin 20) (js_min (Fin 140)
          (js_add (convertRMSToDecibels (calculateRMS frame)) (calibrationOffset this))),
        lastUpdateTime := now\<rparr>)"
  by (auto simp: getCurrentDecibels_def Let_def)

lemma clamp_inside:
  "20 \<le> x \<Longrightarrow> x \<le> 140 \<Longrightarrow> js_max (Fin 20) (js_min (Fin 140) (Fin x)) = Fin x"
  by (simp add: js_max_def js_min_def)

lemma clamp_range:
  "js_max (Fin 20) (js_min (Fin 140) d) = NaN \<or>
   (js_le (Fin 20) (js_max (Fin 20) (js_min (Fin 140) d)) \<and>
    js_le (js_max (Fin 20) (js_min (Fin 140) d)) (Fin 140))"
  by (cases d) (auto simp: js_max_def js_min_def js_le_def)

text \<open>
  A frame of four bytes 0 is a steady signal at full scale: every amplitude is \<open>-1\<close>, the
  RMS is 1 and the level before calibration is 94 dB.
\<close>

lemma calculateRMS_full_scale: "calculateRMS [0, 0, 0, 0] = Fin 1"
  by (simp add: calculateRMS_def amplitude_def)

lemma convertRMSToDecibels_one: "convertRMSToDecibels (Fin 1) = Fin 94"
  by (simp add: convertRMSToDecibels_def js_le_def)

subsection \<open>Silence\<close>

lemma calculateRMS_loop_silence:
  "\<forall>b\<in>set frame. b = 128 \<Longrightarrow> calculateRMS_loop frame acc = acc"
  by (induction frame arbitrary: acc) (simp_all add: amplitude_def)

lemma calculateRMS_silence:
  "frame \<noteq> [] \<Longrightarrow> \<forall>b\<in>set frame. b = 128 \<Longrightarrow> calculateRMS frame = Fin 0"
  by (simp add: calculateRMS_def calculateRMS_loop_silence)

lemma convertRMSToDecibels_zero: "convertRMSToDecibels (Fin 0) = NInf"
  by (simp add: convertRMSToDecibels_def js_le_def)

text \<open>
  Claim C9, as stated, fails. On a measuring processor whose update interval has elapsed,
  a silent frame reads NaN when the calibration offset is positive infinity or NaN, and
  so does the empty frame, every sample of which is at the midpoint. Within the update
  interval the cached level (here 62) is returned whatever the frame is, and a processor
  that is not measuring returns 0.
\<close>

theorem silence_can_read_NaN:
  "fst (getCurrentDecibels ((new_AudioProcessor\<lparr>analyser := Some \<lparr>fftSize = 2048, smoothingTimeConstant = 3 / 10\<rparr>,
         isInitialized := True, isActive := True, isMeasuring := True\<rparr>)\<lparr>calibrationOffset := PInf\<rparr>) 1000 (Inr [128, 128, 128, 128]))
     = NaN
   \<and> fst (getCurrentDecibels ((new_AudioProcessor\<lparr>analyser := Some \<lparr>fftSize = 2048, smoothingTimeConstant = 3 / 10\<rparr>,
         isInitialized := True, isActive := True, isMeasuring := True\<rparr>)\<lparr>calibrationOffset := NaN\<rparr>) 1000 (Inr [128, 128, 128, 128]))
     = NaN
   \<and> fst (getCurrentDecibels (new_AudioProcessor\<lparr>analyser := Some \<lparr>fftSize = 2048, smoothingTimeConstant = 3 / 10\<rparr>,
         isInitialized := True, isActive := True, isMeasuring := True\<rparr>) 1000 (Inr [])) = NaN
   \<and> fst (getCurrentDecibels ((new_AudioProcessor\<lparr>analyser := Some \<lparr>fftSize = 2048, smoothingTimeConstant = 3 / 10\<rparr>,
         isInitialized := True, isActive := True, isMeasuring := True\<rparr>)\<lparr>currentDecibels := Fin 62, lastUpdateTime := 995\<rparr>) 1000
        (Inr [128, 128, 128, 128])) = Fin 62
   \<and> fst (getCurrentDecibels ((new_AudioProcessor\<lparr>analyser := Some \<lparr>fftSize = 2048, smoothingTimeConstant = 3 / 10\<rparr>,
         isInitialized := True, isActive := True, isMeasuring := True\<rparr>)\<lparr>isMeasuring := False\<rparr>) 1000 (Inr [128, 128, 128, 128]))
     = Fin 0"
proof -
  have silent: "convertRMSToDecibels (calculateRMS [128, 128, 128, 128]) = NInf"
    by (simp add: calculateRMS_silence convertRMSToDecibels_zero)
  have empty: "convertRMSToDecibels (calculateRMS []) = NaN"
    by (simp add: calculateRMS_def convertRMSToDecibels_def js_le_def)
  show ?thesis
    by (simp add: getCurrentDecibels_def silent empty new_AudioProcessor_def
        js_max_def js_min_def Let_def)
qed

text \<open>
  Claim C9, amended. When the processor is measuring, the update interval has elapsed
  (so that the level is computed from the frame) and the frame is silence (a non-empty
  frame with every byte at the midpoint 128), then the RMS is 0 and its conversion to
  decibels is negative infinity. \<open>getCurrentDecibels\<close> then returns the floor 20 for every
  calibration offset but positive infinity and NaN, for which it returns NaN. The level
  is returned as a value; nothing is thrown.
\<close>

theorem silence_reads_floor:
  assumes "isInitialized this" and "isMeasuring this" and "analyser this \<noteq> None"
    and "updateInterval this \<le> now - lastUpdateTime this"
    and "frame \<noteq> []" and "\<forall>b\<in>set frame. b = 128"
  shows "calculateRMS frame = Fin 0
    \<and> convertRMSToDecibels (calculateRMS frame) = NInf
    \<and> fst (getCurrentDecibels this now (Inr frame)) =
        (if calibrationOffset this = PInf \<or> calibrationOffset this = NaN then NaN else Fin 20)"
proof -
  have rms: "calculateRMS frame = Fin 0" using assms(5,6) by (rule calculateRMS_silence)
  have conv: "convertRMSToDecibels (calculateRMS frame) = NInf"
    by (simp add: rms convertRMSToDecibels_zero)
  have "js_max (Fin 20) (js_min (Fin 140) (js_add NInf (calibrationOffset this))) =
        (if calibrationOffset this = PInf \<or> calibrationOffset this = NaN then NaN else Fin 20)"
    by (cases "calibrationOffset this") (simp_all add: js_max_def js_min_def)
  then have "fst (getCurrentDecibels this now (Inr frame)) =
        (if calibrationOffset this = PInf \<or> calibrationOffset this = NaN then NaN else Fin 20)"
    using assms(1-4) by (simp add: getCurrentDecibels_fresh conv)
  then show ?thesis using rms conv by simp
qed

theorem silence_reads_floor_witness:
  "calculateRMS [128, 128, 128] = Fin 0
   \<and> fst (getCurrentDecibels ((new_AudioProcessor\<lparr>analyser := Some \<lparr>fftSize = 2048, smoothingTimeConstant = 3 / 10\<rparr>,
         isInitialized := True, isActive := True, isMeasuring := True\<rparr>)\<lparr>calibrationOffset := Fin 3\<rparr>) 1000 (Inr [128, 128, 128]))
       = Fin 20
   \<and> fst (getCurrentDecibels ((new_AudioProcessor\<lparr>analyser := Some \<lparr>fftSize = 2048, smoothingTimeConstant = 3 / 10\<rparr>,
         isInitialized := True, isActive := True, isMeasuring := True\<rparr>)\<lparr>calibrationOffset := NInf\<rparr>) 1000 (Inr [128, 128, 128]))
       = Fin 20"
  using silence_reads_floor [of "(new_AudioProcessor\<lparr>analyser := Some \<lparr>fftSize = 2048, smoothingTimeConstant = 3 / 10\<rparr>,
         isInitialized := True, isActive := True, isMeasuring := True\<rparr>)\<lparr>calibrationOffset := Fin 3\<rparr>" 1000 "[128, 128, 128]"]
    silence_reads_floor [of "(new_AudioProcessor\<lparr>analyser := Some \<lparr>fftSize = 2048, smoothingTimeConstant = 3 / 10\<rparr>,
         isInitialized := True, isActive := True, isMeasuring := True\<rparr>)\<lparr>calibrationOffset := NInf\<rparr>" 1000 "[128, 128, 128]"]
  by (simp add: new_AudioProcessor_def)

subsection \<open>Idle and failed reads\<close>

text \<open>
  Claim C10. When the processor is not initialized, not measuring or has no analyser,
  \<open>getCurrentDecibels\<close> returns 0 and leaves the processor as it is; this holds for the
  processor the constructor leaves. 0 is below the floor 20 of the clamp. When the
  processor is measuring, the update interval has elapsed and reading the frame throws,
  the operation returns the cached level, or 0 when the cached level is 0 or NaN, and
  leaves the processor as it is. A level computed from a frame is NaN or lies between
  20 and 140.
\<close>

theorem idle_or_failed_read:
  "(\<not> isInitialized this \<or> \<not> isMeasuring this \<or> analyser this = None
      \<longrightarrow> getCurrentDecibels this now sampled = (Fin 0, this))
   \<and> js_lt (Fin 0) (Fin 20)
   \<and> (isInitialized this \<and> isMeasuring this \<and> analyser this \<noteq> None
        \<and> updateInterval this \<le> now - lastUpdateTime this
      \<longrightarrow> getCurrentDecibels this now (Inl e) =
            (if js_truthy (currentDecibels this) then currentDecibels this else Fin 0, this))
   \<and> (isInitialized this \<and> isMeasuring this \<and> analyser this \<noteq> None
        \<and> updateInterval this \<le> now - lastUpdateTime this
      \<longrightarrow> fst (getCurrentDecibels this now (Inr frame)) = NaN
          \<or> (js_le (Fin 20) (fst (getCurrentDecibels this now (Inr frame)))
              \<and> js_le (fst (getCurrentDecibels this now (Inr frame))) (Fin 140)))
   \<and> getCurrentDecibels new_AudioProcessor now sampled = (Fin 0, new_AudioProcessor)"
proof -
  have a: "getCurrentDecibels this now sampled = (Fin 0, this)"
    if "\<not> isInitialized this \<or> \<not> isMeasuring this \<or> analyser this = None"
    using that by (auto simp: getCurrentDecibels_def)
  have b: "getCurrentDecibels this now (Inl e) =
            (if js_truthy (currentDecibels this) then currentDecibels this else Fin 0, this)"
    if "isInitialized this \<and> isMeasuring this \<and> analyser this \<noteq> None
        \<and> updateInterval this \<le> now - lastUpdateTime this"
    using that by (auto simp: getCurrentDecibels_def)
  have c: "fst (getCurrentDecibels this now (Inr frame)) = NaN
          \<or> (js_le (Fin 20) (fst (getCurrentDecibels this now (Inr frame)))
              \<and> js_le (fst (getCurrentDecibels this now (Inr frame))) (Fin 140))"
    if "isInitialized this \<and> isMeasuring this \<and> analyser this \<noteq> None
        \<and> updateInterval this \<le> now - lastUpdateTime this"
    using that clamp_range by (simp add: getCurrentDecibels_fresh)
  have d: "getCurrentDecibels new_AudioProcessor now sampled = (Fin 0, new_AudioProcessor)"
    by (simp add: getCurrentDecibels_def new_AudioProcessor_def)
  have e: "js_lt (Fin 0) (Fin 20)" by simp
  show ?thesis using a b c d e by blast
qed

theorem idle_or_failed_read_witness:
  "getCurrentDecibels
     (new_AudioProcessor\<lparr>analyser := Some \<lparr>fftSize = 2048, smoothingTimeConstant = 3 / 10\<rparr>,
         isInitialized := True\<rparr>) 1000 (Inr [0, 0, 0, 0])
     = (Fin 0,
        new_AudioProcessor\<lparr>analyser := Some \<lparr>fftSize = 2048, smoothingTimeConstant = 3 / 10\<rparr>,
         isInitialized := True\<rparr>)
   \<and> fst (getCurrentDecibels
     (new_AudioProcessor\<lparr>analyser := Some \<lparr>fftSize = 2048, smoothingTimeConstant = 3 / 10\<rparr>,
         isInitialized := True, isActive := True, isMeasuring := True,
         currentDecibels := Fin 62\<rparr>) 1000 (Inl (Error ''TypeError''))) = Fin 62
   \<and> fst (getCurrentDecibels
     (new_AudioProcessor\<lparr>analyser := Some \<lparr>fftSize = 2048, smoothingTimeConstant = 3 / 10\<rparr>,
         isInitialized := True, isActive := True, isMeasuring := True\<rparr>)
       1000 (Inl (Error ''TypeError''))) = Fin 0"
  using idle_or_failed_read [of
     "new_AudioProcessor\<lparr>analyser := Some \<lparr>fftSize = 2048, smoothingTimeConstant = 3 / 10\<rparr>,
         isInitialized := True\<rparr>" 1000 "Inr [0, 0, 0, 0]"]
   idle_or_failed_read [of
     "new_AudioProcessor\<lparr>analyser := Some \<lparr>fftSize = 2048, smoothingTimeConstant = 3 / 10\<rparr>,
         isInitialized := True, isActive := True, isMeasuring := True,
         currentDecibels := Fin 62\<rparr>" 1000 _ "Error ''TypeError''"]
   idle_or_failed_read [of
     "new_AudioProcessor\<lparr>analyser := Some \<lparr>fftSize = 2048, smoothingTimeConstant = 3 / 10\<rparr>,
         isInitialized := True, isActive := True, isMeasuring := True\<rparr>"
       1000 _ "Error ''TypeError''"]
  by (simp add: new_AudioProcessor_def js_truthy_def)

subsection \<open>Calibration\<close>

text \<open>
  The level of a frame before calibration is at most 94 dB: no amplitude exceeds 1 in
  absolute value, so the RMS is at most 1.
\<close>

lemma amplitude_square_le_1: "amplitude b * amplitude b \<le> 1"
proof -
  define u where "u = real (unat b)"
  have "unat b < 2 ^ LENGTH(8)" by (rule unsigned_less)
  then have "unat b < 256" by simp
  then have "real (unat b) < real 256" by (simp only: of_nat_less_iff)
  then have u: "u < 256" unfolding u_def by simp
  have u0: "0 \<le> u" unfolding u_def by (rule of_nat_0_le_iff)
  have a: "amplitude b = (u - 128) / 128" unfolding amplitude_def u_def ..
  have "\<bar>amplitude b\<bar> \<le> 1" unfolding a using u u0 by (simp add: abs_le_iff)
  then have "(amplitude b)\<^sup>2 \<le> 1" by (simp only: abs_square_le_1)
  then show ?thesis by (simp only: power2_eq_square)
qed

lemma calculateRMS_loop_bounds:
  "acc \<le> calculateRMS_loop frame acc \<and> calculateRMS_loop frame acc \<le> acc + real (length frame)"
proof (induction frame arbitrary: acc)
  case Nil
  show ?case by simp
next
  case (Cons b bs)
  define z where "z = amplitude b * amplitude b"
  have z0: "0 \<le> z" unfolding z_def by (rule zero_le_square)
  have z1: "z \<le> 1" unfolding z_def by (rule amplitude_square_le_1)
  have step: "calculateRMS_loop (b # bs) acc = calculateRMS_loop bs (acc + z)"
    unfolding z_def by simp
  have len: "real (length (b # bs)) = 1 + real (length bs)" by simp
  show ?case unfolding step len using Cons.IH [of "acc + z"] z0 z1 by linarith
qed

lemma convertRMSToDecibels_Fin:
  "convertRMSToDecibels (Fin r) = (if r \<le> 0 then NInf else Fin (20 * log 10 r + 94))"
  by (auto simp: convertRMSToDecibels_def js_le_def)

lemma raw_level_le_94:
  assumes "convertRMSToDecibels (calculateRMS frame) = Fin x"
  shows "x \<le> 94"
proof (cases "frame = []")
  case True
  then have "convertRMSToDecibels (calculateRMS frame) = NaN"
    by (simp add: calculateRMS_def convertRMSToDecibels_def js_le_def)
  then show ?thesis using assms by simp
next
  case False
  define r where "r = sqrt (calculateRMS_loop frame 0 / real (length frame))"
  have n: "0 < real (length frame)" using False by simp
  have S: "0 \<le> calculateRMS_loop frame 0" "calculateRMS_loop frame 0 \<le> real (length frame)"
    using calculateRMS_loop_bounds [of 0 frame] by simp_all
  have q0: "0 \<le> calculateRMS_loop frame 0 / real (length frame)"
    using S(1) n by (rule divide_nonneg_pos)
  have q1: "calculateRMS_loop frame 0 / real (length frame) \<le> 1"
    using S(2) n by (simp only: divide_le_eq_1_pos)
  have nz: "real (length frame) \<noteq> 0" using n by simp
  have nq: "\<not> calculateRMS_loop frame 0 / real (length frame) < 0" using q0 by linarith
  have dv: "js_div (Fin (calculateRMS_loop frame 0)) (Fin (real (length frame)))
      = Fin (calculateRMS_loop frame 0 / real (length frame))"
    using nz by simp
  have "js_sqrt (Fin (calculateRMS_loop frame 0 / real (length frame))) = Fin r"
    unfolding r_def using nq by simp
  then have rms: "calculateRMS frame = Fin r"
    unfolding calculateRMS_def dv .
  have r1: "r \<le> 1" unfolding r_def using q1 by simp
  show ?thesis
  proof (cases "r \<le> 0")
    case True
    then have "convertRMSToDecibels (calculateRMS frame) = NInf"
      by (simp add: rms convertRMSToDecibels_Fin)
    then show ?thesis using assms by simp
  next
    case False
    then have pos: "0 < r" by simp
    have lg: "log 10 r \<le> 0" using pos r1 by simp
    have "convertRMSToDecibels (calculateRMS frame) = Fin (20 * log 10 r + 94)"
      using False by (simp add: rms convertRMSToDecibels_Fin)
    then have "x = 20 * log 10 r + 94" using assms by simp
    then show ?thesis using lg by simp
  qed
qed

text \<open>
  Claim C7, as stated, fails on a measuring processor in several ways. All but the last
  read the steady full-scale frame (94 dB before calibration).
  \<^item> With no previous offset and a reference of 100 dB the stored offset is 6, but a
    reading taken 5 ms after the calibration, within the update interval, returns the
    level cached by the calibration itself, which is the uncalibrated 94.
  \<^item> With a previous offset of 5 the stored offset is 11, not 6, and the next computed
    reading is 105, not 100.
  \<^item> When the calibration falls within the update interval of an earlier reading of
    another signal (cached level 62), it takes that cached level for its reading: the
    stored offset is 38 and the next computed reading 132.
  \<^item> With a reference of 150 dB the next computed reading is clamped to 140, and with a
    reference of 10 dB it is clamped to 20.
  \<^item> On a silent frame the uncalibrated reading is the floor 20, the offset stored for a
    reference of 94 dB is 74, and the next computed reading is again 20.
\<close>

theorem calibrate_not_round_trip:
  "\<not> isl (calibrate (new_AudioProcessor\<lparr>analyser := Some \<lparr>fftSize = 2048, smoothingTimeConstant = 3 / 10\<rparr>,
         isInitialized := True, isActive := True, isMeasuring := True\<rparr>) (Fin 100) 1000 (Inr [0, 0, 0, 0]))
   \<and> fst (projr (calibrate (new_AudioProcessor\<lparr>analyser := Some \<lparr>fftSize = 2048, smoothingTimeConstant = 3 / 10\<rparr>,
         isInitialized := True, isActive := True, isMeasuring := True\<rparr>) (Fin 100) 1000 (Inr [0, 0, 0, 0]))) = Fin 6
   \<and> fst (getCurrentDecibels
        (snd (projr (calibrate (new_AudioProcessor\<lparr>analyser := Some \<lparr>fftSize = 2048, smoothingTimeConstant = 3 / 10\<rparr>,
         isInitialized := True, isActive := True, isMeasuring := True\<rparr>) (Fin 100) 1000 (Inr [0, 0, 0, 0]))))
        1005 (Inr [0, 0, 0, 0])) = Fin 94
   \<and> \<not> isl (calibrate ((new_AudioProcessor\<lparr>analyser := Some \<lparr>fftSize = 2048, smoothingTimeConstant = 3 / 10\<rparr>,
         isInitialized := True, isActive := True, isMeasuring := True\<rparr>)\<lparr>calibrationOffset := Fin 5\<rparr>) (Fin 100) 1000 (Inr [0, 0, 0, 0]))
   \<and> fst (projr (calibrate ((new_AudioProcessor\<lparr>analyser := Some \<lparr>fftSize = 2048, smoothingTimeConstant = 3 / 10\<rparr>,
         isInitialized := True, isActive := True, isMeasuring := True\<rparr>)\<lparr>calibrationOffset := Fin 5\<rparr>) (Fin 100) 1000
        (Inr [0, 0, 0, 0]))) = Fin 11
   \<and> fst (getCurrentDecibels
        (snd (projr (calibrate ((new_AudioProcessor\<lparr>analyser := Some \<lparr>fftSize = 2048, smoothingTimeConstant = 3 / 10\<rparr>,
         isInitialized := True, isActive := True, isMeasuring := True\<rparr>)\<lparr>calibrationOffset := Fin 5\<rparr>) (Fin 100) 1000
           (Inr [0, 0, 0, 0]))))
        1020 (Inr [0, 0, 0, 0])) = Fin 105
   \<and> \<not> isl (calibrate ((new_AudioProcessor\<lparr>analyser := Some \<lparr>fftSize = 2048, smoothingTimeConstant = 3 / 10\<rparr>,
         isInitialized := True, isActive := True, isMeasuring := True\<rparr>)\<lparr>currentDecibels := Fin 62, lastUpdateTime := 995\<rparr>) (Fin 100) 1000
          (Inr [0, 0, 0, 0]))
   \<and> fst (projr (calibrate ((new_AudioProcessor\<lparr>analyser := Some \<lparr>fftSize = 2048, smoothingTimeConstant = 3 / 10\<rparr>,
         isInitialized := True, isActive := True, isMeasuring := True\<rparr>)\<lparr>currentDecibels := Fin 62, lastUpdateTime := 995\<rparr>) (Fin 100)
          1000 (Inr [0, 0, 0, 0]))) = Fin 38
   \<and> fst (getCurrentDecibels
        (snd (projr (calibrate ((new_AudioProcessor\<lparr>analyser := Some \<lparr>fftSize = 2048, smoothingTimeConstant = 3 / 10\<rparr>,
         isInitialized := True, isActive := True, isMeasuring := True\<rparr>)\<lparr>currentDecibels := Fin 62, lastUpdateTime := 995\<rparr>)
           (Fin 100) 1000 (Inr [0, 0, 0, 0]))))
        1020 (Inr [0, 0, 0, 0])) = Fin 132
   \<and> \<not> isl (calibrate (new_AudioProcessor\<lparr>analyser := Some \<lparr>fftSize = 2048, smoothingTimeConstant = 3 / 10\<rparr>,
         isInitialized := True, isActive := True, isMeasuring := True\<rparr>) (Fin 150) 1000 (Inr [0, 0, 0, 0]))
   \<and> fst (projr (calibrate (new_AudioProcessor\<lparr>analyser := Some \<lparr>fftSize = 2048, smoothingTimeConstant = 3 / 10\<rparr>,
         isInitialized := True, isActive := True, isMeasuring := True\<rparr>) (Fin 150) 1000 (Inr [0, 0, 0, 0]))) = Fin 56
   \<and> fst (getCurrentDecibels
        (snd (projr (calibrate (new_AudioProcessor\<lparr>analyser := Some \<lparr>fftSize = 2048, smoothingTimeConstant = 3 / 10\<rparr>,
         isInitialized := True, isActive := True, isMeasuring := True\<rparr>) (Fin 150) 1000 (Inr [0, 0, 0, 0]))))
        1020 (Inr [0, 0, 0, 0])) = Fin 140
   \<and> \<not> isl (calibrate (new_AudioProcessor\<lparr>analyser := Some \<lparr>fftSize = 2048, smoothingTimeConstant = 3 / 10\<rparr>,
         isInitialized := True, isActive := True, isMeasuring := True\<rparr>) (Fin 10) 1000 (Inr [0, 0, 0, 0]))
   \<and> fst (projr (calibrate (new_AudioProcessor\<lparr>analyser := Some \<lparr>fftSize = 2048, smoothingTimeConstant = 3 / 10\<rparr>,
         isInitialized := True, isActive := True, isMeasuring := True\<rparr>) (Fin 10) 1000 (Inr [0, 0, 0, 0]))) = Fin (- 84)
   \<and> fst (getCurrentDecibels
        (snd (projr (calibrate (new_AudioProcessor\<lparr>analyser := Some \<lparr>fftSize = 2048, smoothingTimeConstant = 3 / 10\<rparr>,
         isInitialized := True, isActive := True, isMeasuring := True\<rparr>) (Fin 10) 1000 (Inr [0, 0, 0, 0]))))
        1020 (Inr [0, 0, 0, 0])) = Fin 20
   \<and> fst (getCurrentDecibels (new_AudioProcessor\<lparr>analyser := Some \<lparr>fftSize = 2048, smoothingTimeConstant = 3 / 10\<rparr>,
         isInitialized := True, isActive := True, isMeasuring := True\<rparr>) 1000 (Inr [128, 128, 128, 128])) = Fin 20
   \<and> \<not> isl (calibrate (new_AudioProcessor\<lparr>analyser := Some \<lparr>fftSize = 2048, smoothingTimeConstant = 3 / 10\<rparr>,
         isInitialized := True, isActive := True, isMeasuring := True\<rparr>) (Fin 94) 1000 (Inr [128, 128, 128, 128]))
   \<and> fst (projr (calibrate (new_AudioProcessor\<lparr>analyser := Some \<lparr>fftSize = 2048, smoothingTimeConstant = 3 / 10\<rparr>,
         isInitialized := True, isActive := True, isMeasuring := True\<rparr>) (Fin 94) 1000 (Inr [128, 128, 128, 128]))) = Fin 74
   \<and> fst (getCurrentDecibels
        (snd (projr (calibrate (new_AudioProcessor\<lparr>analyser := Some \<lparr>fftSize = 2048, smoothingTimeConstant = 3 / 10\<rparr>,
         isInitialized := True, isActive := True, isMeasuring := True\<rparr>) (Fin 94) 1000 (Inr [128, 128, 128, 128]))))
        1020 (Inr [128, 128, 128, 128])) = Fin 20"
proof -
  have raw: "convertRMSToDecibels (calculateRMS [0, 0, 0, 0]) = Fin 94"
    by (simp add: calculateRMS_full_scale convertRMSToDecibels_one)
  have silent: "convertRMSToDecibels (calculateRMS [128, 128, 128, 128]) = NInf"
    by (simp add: calculateRMS_silence convertRMSToDecibels_zero)
  show ?thesis
    by (simp add: calibrate_def getCurrentDecibels_def raw silent new_AudioProcessor_def
        js_max_def js_min_def js_sub_def Let_def)
qed

text \<open>
  Claim C7, amended. Let the processor be measuring with a calibration offset of 0. Let
  the frame of the steady signal have the level \<open>x\<close> before calibration, with \<open>x\<close> at
  least 20, and let the reading that \<open>calibrate\<close> takes be of this signal: either the
  update interval has elapsed, so that the reading is computed from the frame, or the
  cached level is \<open>x\<close>. Let the reference \<open>y\<close> be between 20 and 140. Then \<open>calibrate\<close> with
  reference \<open>y\<close> does not throw, it returns and stores the offset \<open>y - x\<close>, and the next
  reading that is computed from the same frame, the update interval having elapsed since
  the last computed reading, is \<open>y\<close>.
\<close>

theorem calibrate_round_trip:
  assumes "isInitialized this" and "isMeasuring this" and "analyser this \<noteq> None"
    and "calibrationOffset this = Fin 0"
    and "updateInterval this \<le> now - lastUpdateTime this \<or> currentDecibels this = Fin x"
    and "convertRMSToDecibels (calculateRMS frame) = Fin x"
    and "20 \<le> x" and "20 \<le> y" and "y \<le> 140"
  shows "case calibrate this (Fin y) now (Inr frame) of
           Inl err \<Rightarrow> False
         | Inr (offset, this') \<Rightarrow>
             offset = Fin (y - x) \<and> calibrationOffset this' = Fin (y - x)
             \<and> (updateInterval this' \<le> now' - lastUpdateTime this'
                  \<longrightarrow> fst (getCurrentDecibels this' now' (Inr frame)) = Fin y)"
proof -
  have x140: "x \<le> 140" using raw_level_le_94 [OF assms(6)] by simp
  let ?this1 = "this\<lparr>calibrationOffset := Fin 0\<rparr>"
  obtain this2 where reading: "getCurrentDecibels ?this1 now (Inr frame) = (Fin x, this2)"
    and this2: "this2 = ?this1 \<or> this2 = ?this1\<lparr>timeDataArray := Some frame,
                   currentDecibels := Fin x, lastUpdateTime := now\<rparr>"
  proof (cases "now - lastUpdateTime this < updateInterval this")
    case True
    then have c: "currentDecibels this = Fin x" using assms(5) by simp
    have "getCurrentDecibels ?this1 now (Inr frame) = (Fin x, ?this1)"
      using assms(1-3) True c by (auto simp: getCurrentDecibels_def)
    then show ?thesis using that by blast
  next
    case False
    then have "getCurrentDecibels ?this1 now (Inr frame) =
        (Fin x, ?this1\<lparr>timeDataArray := Some frame,
                   currentDecibels := Fin x, lastUpdateTime := now\<rparr>)"
      using assms x140 by (simp add: getCurrentDecibels_fresh clamp_inside)
    then show ?thesis using that by blast
  qed
  let ?this3 = "this2\<lparr>calibrationOffset := Fin (y - x), referenceLevel := Fin y\<rparr>"
  have cal: "calibrate this (Fin y) now (Inr frame) = Inr (Fin (y - x), ?this3)"
    using assms by (simp add: calibrate_def reading js_sub_def Let_def)
  have st: "isInitialized ?this3" "isMeasuring ?this3" "analyser ?this3 \<noteq> None"
    "calibrationOffset ?this3 = Fin (y - x)"
    using this2 assms(1-3) by auto
  have "fst (getCurrentDecibels ?this3 now' (Inr frame)) = Fin y"
    if "updateInterval ?this3 \<le> now' - lastUpdateTime ?this3"
    using getCurrentDecibels_fresh [OF st(1) st(2) st(3) that, of frame] assms(6-9)
    by (simp add: st(4) clamp_inside)
  then show ?thesis using st(4) by (simp add: cal)
qed

theorem calibrate_round_trip_witness:
  "(case calibrate (new_AudioProcessor\<lparr>analyser := Some \<lparr>fftSize = 2048, smoothingTimeConstant = 3 / 10\<rparr>,
         isInitialized := True, isActive := True, isMeasuring := True\<rparr>) (Fin 100) 1000 (Inr [0, 0, 0, 0]) of
       Inl err \<Rightarrow> False
     | Inr (offset, this') \<Rightarrow>
         offset = Fin 6 \<and> calibrationOffset this' = Fin 6
         \<and> fst (getCurrentDecibels this' 1020 (Inr [0, 0, 0, 0])) = Fin 100)
   \<and> (case calibrate ((new_AudioProcessor\<lparr>analyser := Some \<lparr>fftSize = 2048, smoothingTimeConstant = 3 / 10\<rparr>,
         isInitialized := True, isActive := True, isMeasuring := True\<rparr>)\<lparr>currentDecibels := Fin 94, lastUpdateTime := 995\<rparr>) (Fin 100) 1000
          (Inr [0, 0, 0, 0]) of
       Inl err \<Rightarrow> False
     | Inr (offset, this') \<Rightarrow>
         offset = Fin 6 \<and> calibrationOffset this' = Fin 6
         \<and> fst (getCurrentDecibels this' 1020 (Inr [0, 0, 0, 0])) = Fin 100)"
proof -
  have raw: "convertRMSToDecibels (calculateRMS [0, 0, 0, 0]) = Fin 94"
    by (simp add: calculateRMS_full_scale convertRMSToDecibels_one)
  have six: "(100::real) - 94 = 6" by simp
  have a: "case calibrate (new_AudioProcessor\<lparr>analyser := Some \<lparr>fftSize = 2048, smoothingTimeConstant = 3 / 10\<rparr>,
         isInitialized := True, isActive := True, isMeasuring := True\<rparr>) (Fin 100) 1000 (Inr [0, 0, 0, 0]) of
           Inl err \<Rightarrow> False
         | Inr (offset, this') \<Rightarrow>
             offset = Fin (100 - 94) \<and> calibrationOffset this' = Fin (100 - 94)
             \<and> (updateInterval this' \<le> 1020 - lastUpdateTime this'
                  \<longrightarrow> fst (getCurrentDecibels this' 1020 (Inr [0, 0, 0, 0])) = Fin 100)"
    by (rule calibrate_round_trip [where x = 94 and y = 100])
       (simp_all add: raw new_AudioProcessor_def)
  have b: "case calibrate ((new_AudioProcessor\<lparr>analyser := Some \<lparr>fftSize = 2048, smoothingTimeConstant = 3 / 10\<rparr>,
         isInitialized := True, isActive := True, isMeasuring := True\<rparr>)\<lparr>currentDecibels := Fin 94, lastUpdateTime := 995\<rparr>) (Fin 100) 1000
          (Inr [0, 0, 0, 0]) of
           Inl err \<Rightarrow> False
         | Inr (offset, this') \<Rightarrow>
             offset = Fin (100 - 94) \<and> calibrationOffset this' = Fin (100 - 94)
             \<and> (updateInterval this' \<le> 1020 - lastUpdateTime this'
                  \<longrightarrow> fst (getCurrentDecibels this' 1020 (Inr [0, 0, 0, 0])) = Fin 100)"
    by (rule calibrate_round_trip [where x = 94 and y = 100])
       (simp_all add: raw new_AudioProcessor_def)
  have ua: "updateInterval (snd (projr (calibrate (new_AudioProcessor\<lparr>analyser := Some \<lparr>fftSize = 2048, smoothingTimeConstant = 3 / 10\<rparr>,
         isInitialized := True, isActive := True, isMeasuring := True\<rparr>) (Fin 100) 1000 (Inr [0, 0, 0, 0]))))
      \<le> 1020 - lastUpdateTime (snd (projr (calibrate (new_AudioProcessor\<lparr>analyser := Some \<lparr>fftSize = 2048, smoothingTimeConstant = 3 / 10\<rparr>,
         isInitialized := True, isActive := True, isMeasuring := True\<rparr>) (Fin 100) 1000 (Inr [0, 0, 0, 0]))))"
    by (simp add: calibrate_def getCurrentDecibels_def raw new_AudioProcessor_def
        js_max_def js_min_def js_sub_def Let_def)
  have ub: "updateInterval (snd (projr (calibrate
        ((new_AudioProcessor\<lparr>analyser := Some \<lparr>fftSize = 2048, smoothingTimeConstant = 3 / 10\<rparr>,
         isInitialized := True, isActive := True, isMeasuring := True\<rparr>)\<lparr>currentDecibels := Fin 94, lastUpdateTime := 995\<rparr>) (Fin 100) 1000
        (Inr [0, 0, 0, 0]))))
      \<le> 1020 - lastUpdateTime (snd (projr (calibrate
        ((new_AudioProcessor\<lparr>analyser := Some \<lparr>fftSize = 2048, smoothingTimeConstant = 3 / 10\<rparr>,
         isInitialized := True, isActive := True, isMeasuring := True\<rparr>)\<lparr>currentDecibels := Fin 94, lastUpdateTime := 995\<rparr>) (Fin 100) 1000
        (Inr [0, 0, 0, 0]))))"
    by (simp add: calibrate_def getCurrentDecibels_def raw new_AudioProcessor_def
        js_max_def js_min_def js_sub_def Let_def)
  show ?thesis
    using a b ua ub unfolding six by (auto split: sum.splits)
qed


section \<open>Properties of the session statistics\<close>

subsection \<open>Percentiles\<close>

lemma floor_eq_ceiling_int:
  fixes i :: real
  assumes "\<lfloor>i\<rfloor> = \<lceil>i\<rceil>"
  shows "i - of_int \<lfloor>i\<rfloor> = 0"
proof -
  have "of_int \<lfloor>i\<rfloor> \<le> i" by (rule of_int_floor_le)
  moreover have "i \<le> of_int \<lceil>i\<rceil>" by (rule le_of_int_ceiling)
  moreover have "(of_int \<lfloor>i\<rfloor> :: real) = of_int \<lceil>i\<rceil>" using assms by (simp only:)
  ultimately show ?thesis by linarith
qed

lemma percentile_index_bounds:
  fixes p :: real and n :: nat
  assumes "1 \<le> n" and "0 \<le> p" and "p \<le> 100"
  shows "0 \<le> \<lfloor>(p / 100) * (real n - 1)\<rfloor>"
    and "\<lceil>(p / 100) * (real n - 1)\<rceil> < int n"
    and "\<lfloor>(p / 100) * (real n - 1)\<rfloor> < int n"
    and "0 \<le> \<lceil>(p / 100) * (real n - 1)\<rceil>"
proof -
  let ?i = "(p / 100) * (real n - 1)"
  have n1: "0 \<le> real n - 1" using assms(1) by simp
  have p0: "0 \<le> p / 100" using assms(2) by simp
  have i0: "0 \<le> ?i" using p0 n1 by (rule mult_nonneg_nonneg)
  have "p / 100 \<le> 1" using assms(3) by simp
  then have "?i \<le> 1 * (real n - 1)" using n1 by (rule mult_right_mono)
  moreover have "1 * (real n - 1) = real_of_int (int n - 1)" using assms(1) by simp
  ultimately have i1: "?i \<le> real_of_int (int n - 1)" by (simp only:)
  have f0: "(0::int) \<le> \<lfloor>?i\<rfloor>" using i0 by (simp only: zero_le_floor)
  have c1: "\<lceil>?i\<rceil> \<le> int n - 1" using i1 by (simp only: ceiling_le_iff)
  have fc: "\<lfloor>?i\<rfloor> \<le> \<lceil>?i\<rceil>" by (rule floor_le_ceiling)
  show "0 \<le> \<lfloor>?i\<rfloor>" by (rule f0)
  show "\<lceil>?i\<rceil> < int n" using c1 by linarith
  show "\<lfloor>?i\<rfloor> < int n" using c1 fc by linarith
  show "0 \<le> \<lceil>?i\<rceil>" using f0 fc by linarith
qed

lemma calculatePercentile_interpolates:
  assumes "values \<noteq> []" and "0 \<le> p" and "p \<le> 100"
  shows "calculatePercentile values p =
    Some (Fin (sort values ! nat \<lfloor>(p / 100) * (real (length values) - 1)\<rfloor>
                 * (1 - ((p / 100) * (real (length values) - 1)
                          - of_int \<lfloor>(p / 100) * (real (length values) - 1)\<rfloor>))
               + sort values ! nat \<lceil>(p / 100) * (real (length values) - 1)\<rceil>
                 * ((p / 100) * (real (length values) - 1)
                      - of_int \<lfloor>(p / 100) * (real (length values) - 1)\<rfloor>)))"
proof -
  let ?s = "sort values"
  let ?i = "(p / 100) * (real (length values) - 1)"
  have n: "1 \<le> length values" using assms(1) by (cases "values") simp_all
  note b = percentile_index_bounds [OF n assms(2) assms(3)]
  have lo: "at_index ?s \<lfloor>?i\<rfloor> = Some (?s ! nat \<lfloor>?i\<rfloor>)"
    unfolding at_index_def using b(1) b(3) by (simp only: length_sort if_True simp_thms)
  have hi: "at_index ?s \<lceil>?i\<rceil> = Some (?s ! nat \<lceil>?i\<rceil>)"
    unfolding at_index_def using b(2) b(4) by (simp only: length_sort if_True simp_thms)
  have unf: "calculatePercentile values p =
      (if \<lfloor>?i\<rfloor> = \<lceil>?i\<rceil> then map_option Fin (at_index ?s \<lfloor>?i\<rfloor>)
       else case (at_index ?s \<lfloor>?i\<rfloor>, at_index ?s \<lceil>?i\<rceil>) of
              (Some a, Some b) \<Rightarrow> Some (Fin (a * (1 - (?i - of_int \<lfloor>?i\<rfloor>)) + b * (?i - of_int \<lfloor>?i\<rfloor>)))
            | _ \<Rightarrow> Some NaN)"
    unfolding calculatePercentile_def Let_def length_sort ..
  show ?thesis
  proof (cases "\<lfloor>?i\<rfloor> = \<lceil>?i\<rceil>")
    case True
    have w: "?i - of_int \<lfloor>?i\<rfloor> = 0" using True by (rule floor_eq_ceiling_int)
    have "calculatePercentile values p = map_option Fin (at_index ?s \<lfloor>?i\<rfloor>)"
      unfolding unf by (rule if_P [OF True])
    then show ?thesis unfolding lo w
      by (simp only: option.map mult_1_right diff_zero mult_zero_right add_0_right)
  next
    case False
    have "calculatePercentile values p =
        (case (at_index ?s \<lfloor>?i\<rfloor>, at_index ?s \<lceil>?i\<rceil>) of
              (Some a, Some b) \<Rightarrow> Some (Fin (a * (1 - (?i - of_int \<lfloor>?i\<rfloor>)) + b * (?i - of_int \<lfloor>?i\<rfloor>)))
            | _ \<Rightarrow> Some NaN)"
      unfolding unf by (rule if_not_P [OF False])
    then show ?thesis unfolding lo hi by (simp only: prod.case option.case)
  qed
qed

lemma history_calculatePercentile_interpolates:
  assumes "values \<noteq> []" and "0 \<le> p" and "p \<le> 100"
  shows "history_calculatePercentile values p =
    Some (if (p / 100) * (real (length values) - 1)
               = of_int \<lfloor>(p / 100) * (real (length values) - 1)\<rfloor>
          then Fin (sort values ! nat \<lfloor>(p / 100) * (real (length values) - 1)\<rfloor>)
          else Fin (of_int \<lfloor>(sort values ! nat \<lfloor>(p / 100) * (real (length values) - 1)\<rfloor>
                       * (1 - ((p / 100) * (real (length values) - 1)
                                - of_int \<lfloor>(p / 100) * (real (length values) - 1)\<rfloor>))
                     + sort values ! nat \<lceil>(p / 100) * (real (length values) - 1)\<rceil>
                       * ((p / 100) * (real (length values) - 1)
                            - of_int \<lfloor>(p / 100) * (real (length values) - 1)\<rfloor>)) * 10
                     + 1 / 2\<rfloor> / 10))"
proof -
  let ?s = "sort values"
  let ?i = "(p / 100) * (real (length values) - 1)"
  let ?v = "?s ! nat \<lfloor>?i\<rfloor> * (1 - (?i - of_int \<lfloor>?i\<rfloor>)) + ?s ! nat \<lceil>?i\<rceil> * (?i - of_int \<lfloor>?i\<rfloor>)"
  have n: "1 \<le> length values" using assms(1) by (cases "values") simp_all
  note b = percentile_index_bounds [OF n assms(2) assms(3)]
  have lo: "at_index ?s \<lfloor>?i\<rfloor> = Some (?s ! nat \<lfloor>?i\<rfloor>)"
    unfolding at_index_def using b(1) b(3) by (simp only: length_sort if_True simp_thms)
  have hi: "at_index ?s \<lceil>?i\<rceil> = Some (?s ! nat \<lceil>?i\<rceil>)"
    unfolding at_index_def using b(2) b(4) by (simp only: length_sort if_True simp_thms)
  have rnd: "js_div (js_round (Fin (?v * 10))) (Fin 10) = Fin (of_int \<lfloor>?v * 10 + 1 / 2\<rfloor> / 10)"
    by simp
  have unf: "history_calculatePercentile values p =
      (if ?i = of_int \<lfloor>?i\<rfloor> then map_option Fin (at_index ?s \<lfloor>?i\<rfloor>)
       else case (at_index ?s \<lfloor>?i\<rfloor>, at_index ?s \<lceil>?i\<rceil>) of
              (Some a, Some b) \<Rightarrow>
                Some (js_div (js_round (Fin ((a * (1 - (?i - of_int \<lfloor>?i\<rfloor>))
                        + b * (?i - of_int \<lfloor>?i\<rfloor>)) * 10))) (Fin 10))
            | _ \<Rightarrow> Some NaN)"
    unfolding history_calculatePercentile_def Let_def length_sort
    using assms(1) by (simp only: if_False)
  show ?thesis
  proof (cases "?i = of_int \<lfloor>?i\<rfloor>")
    case True
    have "history_calculatePercentile values p = map_option Fin (at_index ?s \<lfloor>?i\<rfloor>)"
      unfolding unf by (rule if_P [OF True])
    also have "\<dots> = Some (Fin (?s ! nat \<lfloor>?i\<rfloor>))" unfolding lo by (simp only: option.map)
    finally show ?thesis by (simp only: if_P [OF True])
  next
    case False
    have "history_calculatePercentile values p =
        (case (at_index ?s \<lfloor>?i\<rfloor>, at_index ?s \<lceil>?i\<rceil>) of
              (Some a, Some b) \<Rightarrow>
                Some (js_div (js_round (Fin ((a * (1 - (?i - of_int \<lfloor>?i\<rfloor>))
                        + b * (?i - of_int \<lfloor>?i\<rfloor>)) * 10))) (Fin 10))
            | _ \<Rightarrow> Some NaN)"
      unfolding unf by (rule if_not_P [OF False])
    also have "\<dots> = Some (js_div (js_round (Fin (?v * 10))) (Fin 10))"
      unfolding lo hi by (simp only: prod.case option.case)
    finally show ?thesis unfolding rnd by (simp only: if_not_P [OF False])
  qed
qed

lemma quarter_floor_ceiling: "\<lfloor>1 / 4 :: real\<rfloor> = 0" "\<lceil>1 / 4 :: real\<rceil> = 1"
proof -
  show "\<lfloor>1 / 4 :: real\<rfloor> = 0" by (rule floor_unique) simp_all
  show "\<lceil>1 / 4 :: real\<rceil> = 1" by (rule ceiling_unique) simp_all
qed

text \<open>
  Claim C8, as stated, fails for the percentile function of the history: at a
  fractional index it rounds the interpolated value to one decimal. For the values 1, 2
  the percentile 25 has the index 0.25 and the linear interpolation 1.25, which the
  function of the extended measurement returns; the function of the history returns 1.3.
\<close>

theorem history_percentile_rounds:
  "history_calculatePercentile [1, 2] 25 = Some (Fin (13 / 10))
   \<and> calculatePercentile [1, 2] 25 = Some (Fin (5 / 4))
   \<and> history_calculatePercentile [1, 2] 25 \<noteq> Some (Fin (5 / 4))"
  by (simp add: history_calculatePercentile_def calculatePercentile_def at_index_def Let_def
      quarter_floor_ceiling)

text \<open>
  Claim C8, amended. For a non-empty list of values and a percentile \<open>p\<close> between 0 and
  100, the percentile of the extended measurement is the linear interpolation of the
  sorted values at the index \<open>p / 100 * (n - 1)\<close>: the values at the floor and at the
  ceiling of the index, weighted with the fractional part of the index. The percentile
  of the history is the sorted value at the index when the index is an integer, and
  otherwise the same interpolation rounded to one decimal (ten times the value rounded
  to the nearest integer, halves up, divided by ten). For the values 10, 20, 30, 40, 50
  the percentiles 50, 0 and 100 are 30, 10 and 50 with both functions, and for the single
  value 42 every percentile is 42; no read leaves the array.
\<close>

theorem percentile_interpolation:
  "(values \<noteq> [] \<and> 0 \<le> p \<and> p \<le> 100 \<longrightarrow>
      calculatePercentile values p =
        Some (Fin (sort values ! nat \<lfloor>(p / 100) * (real (length values) - 1)\<rfloor>
                     * (1 - ((p / 100) * (real (length values) - 1)
                              - of_int \<lfloor>(p / 100) * (real (length values) - 1)\<rfloor>))
                   + sort values ! nat \<lceil>(p / 100) * (real (length values) - 1)\<rceil>
                     * ((p / 100) * (real (length values) - 1)
                          - of_int \<lfloor>(p / 100) * (real (length values) - 1)\<rfloor>))))
   \<and> (values \<noteq> [] \<and> 0 \<le> p \<and> p \<le> 100 \<longrightarrow>
      history_calculatePercentile values p =
        Some (if (p / 100) * (real (length values) - 1)
                   = of_int \<lfloor>(p / 100) * (real (length values) - 1)\<rfloor>
              then Fin (sort values ! nat \<lfloor>(p / 100) * (real (length values) - 1)\<rfloor>)
              else Fin (of_int
                     \<lfloor>(sort values ! nat \<lfloor>(p / 100) * (real (length values) - 1)\<rfloor>
                         * (1 - ((p / 100) * (real (length values) - 1)
                                  - of_int \<lfloor>(p / 100) * (real (length values) - 1)\<rfloor>))
                       + sort values ! nat \<lceil>(p / 100) * (real (length values) - 1)\<rceil>
                         * ((p / 100) * (real (length values) - 1)
                              - of_int \<lfloor>(p / 100) * (real (length values) - 1)\<rfloor>)) * 10
                       + 1 / 2\<rfloor> / 10)))
   \<and> calculatePercentile [10, 20, 30, 40, 50] 50 = Some (Fin 30)
   \<and> calculatePercentile [10, 20, 30, 40, 50] 0 = Some (Fin 10)
   \<and> calculatePercentile [10, 20, 30, 40, 50] 100 = Some (Fin 50)
   \<and> calculatePercentile [42] q = Some (Fin 42)
   \<and> history_calculatePercentile [10, 20, 30, 40, 50] 50 = Some (Fin 30)
   \<and> history_calculatePercentile [10, 20, 30, 40, 50] 0 = Some (Fin 10)
   \<and> history_calculatePercentile [10, 20, 30, 40, 50] 100 = Some (Fin 50)
   \<and> history_calculatePercentile [42] q = Some (Fin 42)"
proof -
  have "calculatePercentile [10, 20, 30, 40, 50] 50 = Some (Fin 30)"
    by (simp add: calculatePercentile_def at_index_def Let_def)
  moreover have "calculatePercentile [10, 20, 30, 40, 50] 0 = Some (Fin 10)"
    by (simp add: calculatePercentile_def at_index_def Let_def)
  moreover have "calculatePercentile [10, 20, 30, 40, 50] 100 = Some (Fin 50)"
    by (simp add: calculatePercentile_def at_index_def Let_def)
  moreover have "calculatePercentile [42] q = Some (Fin 42)"
    by (simp add: calculatePercentile_def at_index_def Let_def)
  moreover have "history_calculatePercentile [10, 20, 30, 40, 50] 50 = Some (Fin 30)"
    by (simp add: history_calculatePercentile_def at_index_def Let_def)
  moreover have "history_calculatePercentile [10, 20, 30, 40, 50] 0 = Some (Fin 10)"
    by (simp add: history_calculatePercentile_def at_index_def Let_def)
  moreover have "history_calculatePercentile [10, 20, 30, 40, 50] 100 = Some (Fin 50)"
    by (simp add: history_calculatePercentile_def at_index_def Let_def)
  moreover have "history_calculatePercentile [42] q = Some (Fin 42)"
    by (simp add: history_calculatePercentile_def at_index_def Let_def)
  ultimately show ?thesis
    using calculatePercentile_interpolates [of "values" p]
      history_calculatePercentile_interpolates [of "values" p]
    by blast
qed

theorem percentile_interpolation_witness:
  "calculatePercentile [50, 10, 40, 20, 30] 30 = Some (Fin 22)
   \<and> history_calculatePercentile [50, 10, 40, 20, 30] 30 = Some (Fin 22)
   \<and> calculatePercentile [2, 1] 25 = Some (Fin (5 / 4))
   \<and> history_calculatePercentile [2, 1] 25 = Some (Fin (13 / 10))
   \<and> calculatePercentile [42] 95 = Some (Fin 42)"
  using percentile_interpolation [of "[50, 10, 40, 20, 30]" 30 95]
    percentile_interpolation [of "[2, 1]" 25 95]
  by (simp add: quarter_floor_ceiling)

subsection \<open>Time-weighted average\<close>

lemma spec_energy_Cons: "spec_energy ((v, d) # vds) = 10 powr (v / 10) * d + spec_energy vds"
  by (simp add: spec_energy_def)

lemma spec_total_time_Cons: "spec_total_time ((v, d) # vds) = d + spec_total_time vds"
  by (simp add: spec_total_time_def)

lemma spec_Nil: "spec_energy [] = 0" "spec_total_time [] = 0"
  by (simp_all add: spec_energy_def spec_total_time_def)

lemma twa_loop_finite:
  "\<forall>(v, d)\<in>set vds. d \<noteq> 0 \<Longrightarrow>
   twa_loop (map (\<lambda>(v, d). \<lparr>db = Fin v, duration = Some (Fin d)\<rparr>) vds) (Fin e, Fin t) =
     (Fin (e + spec_energy vds), Fin (t + spec_total_time vds))"
proof (induction vds arbitrary: e t)
  case Nil
  then show ?case by (simp add: spec_Nil)
next
  case (Cons a vds)
  obtain v d where a: "a = (v, d)" by (cases a)
  with Cons.prems have d: "d \<noteq> 0" and rest: "\<forall>(v, d)\<in>set vds. d \<noteq> 0" by simp_all
  show ?case
    using d Cons.IH [OF rest]
    by (simp add: a duration_or_1_def js_truthy_def spec_energy_Cons spec_total_time_Cons
        add.assoc)
qed

lemma spec_nonneg:
  "\<forall>(v, d)\<in>set vds. 0 \<le> d \<Longrightarrow> 0 \<le> spec_energy vds \<and> 0 \<le> spec_total_time vds"
proof (induction vds)
  case Nil
  then show ?case by (simp add: spec_Nil)
next
  case (Cons a vds)
  obtain v d where a: "a = (v, d)" by (cases a)
  with Cons.prems have d: "0 \<le> d" and rest: "\<forall>(v, d)\<in>set vds. 0 \<le> d" by simp_all
  have "0 \<le> 10 powr (v / 10) * d" using d by simp
  then show ?case using Cons.IH [OF rest] d
    by (simp add: a spec_energy_Cons spec_total_time_Cons)
qed

lemma spec_energy_pos:
  "\<forall>(v, d)\<in>set vds. 0 \<le> d \<Longrightarrow> 0 < spec_total_time vds \<Longrightarrow> 0 < spec_energy vds"
proof (induction vds)
  case Nil
  then show ?case by (simp add: spec_Nil)
next
  case (Cons a vds)
  obtain v d where a: "a = (v, d)" by (cases a)
  with Cons.prems have d: "0 \<le> d" and rest: "\<forall>(v, d)\<in>set vds. 0 \<le> d" by simp_all
  have nn: "0 \<le> spec_energy vds" "0 \<le> spec_total_time vds"
    using spec_nonneg [OF rest] by simp_all
  have e: "0 < (10::real) powr (v / 10)" by simp
  show ?case
  proof (cases "0 < d")
    case True
    then have "0 < 10 powr (v / 10) * d" using e by simp
    then show ?thesis using nn by (simp add: a spec_energy_Cons add_pos_nonneg)
  next
    case False
    then have "d = 0" using d by simp
    then have "0 < spec_total_time vds" using Cons.prems(2) by (simp add: a spec_total_time_Cons)
    then have "0 < spec_energy vds" using Cons.IH [OF rest] by simp
    then show ?thesis using \<open>d = 0\<close> by (simp add: a spec_energy_Cons)
  qed
qed

lemma spec_total_time_pos:
  "vds \<noteq> [] \<Longrightarrow> \<forall>(v, d)\<in>set vds. 0 < d \<Longrightarrow> 0 < spec_total_time vds"
proof (induction vds)
  case Nil
  then show ?case by simp
next
  case (Cons a vds)
  obtain v d where a: "a = (v, d)" by (cases a)
  with Cons.prems have d: "0 < d" and rest: "\<forall>(v, d)\<in>set vds. 0 < d" by simp_all
  show ?case
  proof (cases "vds = []")
    case True
    then show ?thesis using d by (simp add: a spec_total_time_Cons spec_Nil)
  next
    case False
    then have "0 < spec_total_time vds" using Cons.IH rest by simp
    then show ?thesis using d by (simp add: a spec_total_time_Cons)
  qed
qed

lemma js_log10_positive: "0 < x \<Longrightarrow> js_log10 (Fin x) = Fin (log 10 x)"
  by simp

lemma calculateTimeWeightedAverage_positive:
  assumes "vds \<noteq> []" and "\<forall>(v, d)\<in>set vds. 0 < d"
  shows "calculateTimeWeightedAverage (map (\<lambda>(v, d). \<lparr>db = Fin v, duration = Some (Fin d)\<rparr>) vds)
           = Fin (spec_twa vds)"
proof -
  have nz: "\<forall>(v, d)\<in>set vds. d \<noteq> 0" using assms(2) by fastforce
  have nn: "\<forall>(v, d)\<in>set vds. 0 \<le> d" using assms(2) by fastforce
  have t: "0 < spec_total_time vds" using assms by (rule spec_total_time_pos)
  have e: "0 < spec_energy vds" using nn t by (rule spec_energy_pos)
  have q: "0 < spec_energy vds / spec_total_time vds" using e t by simp
  have loop: "twa_loop (map (\<lambda>(v, d). \<lparr>db = Fin v, duration = Some (Fin d)\<rparr>) vds) (Fin 0, Fin 0)
      = (Fin (spec_energy vds), Fin (spec_total_time vds))"
    using twa_loop_finite [OF nz, of 0 0] by simp
  have tz: "spec_total_time vds \<noteq> 0" using t by simp
  show ?thesis
    using assms(1) tz
    by (simp add: calculateTimeWeightedAverage_def loop js_log10_positive [OF q] spec_twa_def
        del: js_log10.simps)
qed

lemma spec_intervals_nonneg:
  "sorted (map fst tvs) \<Longrightarrow> \<forall>(v, d)\<in>set (spec_intervals tvs). 0 \<le> d"
  by (induction tvs rule: spec_intervals.induct) auto

lemma twe_loop_finite:
  "twe_loop (map (\<lambda>(t, v). \<lparr>timestamp = t, reading_db = Fin v\<rparr>) tvs) (Fin e, T) =
     (Fin (e + spec_energy (spec_intervals tvs) / 1000),
      T + spec_total_time (spec_intervals tvs) / 1000)"
proof (induction tvs arbitrary: e T rule: spec_intervals.induct)
  case (1 t v t' v' rest)
  show ?case
    using "1.IH" [of "e + 10 powr (v / 10) * (real_of_int (t' - t) / 1000)"
                     "T + real_of_int (t' - t) / 1000"]
    by (simp add: spec_energy_Cons spec_total_time_Cons add_divide_distrib add.assoc)
qed (simp_all add: spec_Nil)

lemma calculateTimeWeightedExposure_positive:
  assumes "sorted (map fst tvs)" and "0 < spec_total_time (spec_intervals tvs)"
  shows "map_option exposure_value
           (calculateTimeWeightedExposure (map (\<lambda>(t, v). \<lparr>timestamp = t, reading_db = Fin v\<rparr>) tvs))
         = Some (Fin (spec_twa (spec_intervals tvs)))"
proof -
  let ?E = "spec_energy (spec_intervals tvs)" and ?T = "spec_total_time (spec_intervals tvs)"
  have ne: "tvs \<noteq> []" using assms(2) by (auto simp: spec_Nil)
  have e: "0 < ?E"
    using spec_intervals_nonneg [OF assms(1)] assms(2) by (rule spec_energy_pos)
  have q: "0 < ?E / ?T" using e assms(2) by simp
  have loop: "twe_loop (map (\<lambda>(t, v). \<lparr>timestamp = t, reading_db = Fin v\<rparr>) tvs) (Fin 0, 0)
      = (Fin (?E / 1000), ?T / 1000)"
    using twe_loop_finite [of tvs 0 0] by simp
  show ?thesis
    using ne assms(2)
    by (simp add: calculateTimeWeightedExposure_def loop js_log10_positive [OF q] spec_twa_def
        Let_def del: js_log10.simps)
qed

lemma log10_505_bounds:
  "27 / 10 < log 10 (505 :: real)"
  "log 10 (505 :: real) < 338 / 125"
proof -
  have lo: "(10::real) powr (27 / 10) < 505"
  proof -
    have "((10::real) powr (27 / 10)) ^ 10 = 10 powr 27"
      by (simp add: powr_powr flip: powr_realpow)
    also have "\<dots> = 10 ^ 27" by simp
    also have "\<dots> < (505::real) ^ 10" by simp
    finally have "((10::real) powr (27 / 10)) ^ 10 < 505 ^ 10" .
    then show ?thesis by (rule power_less_imp_less_base) simp
  qed
  have "(27 / 10 < log 10 (505::real)) = (10 powr (27 / 10) < (505::real))"
    by (rule less_log_iff) simp_all
  with lo show "27 / 10 < log 10 (505::real)" by blast
  have hi: "(505::real) < 10 powr (338 / 125)"
  proof -
    have "((10::real) powr (338 / 125)) ^ 125 = 10 powr 338"
      by (simp add: powr_powr flip: powr_realpow)
    also have "\<dots> = 10 ^ 338" by simp
    finally have "(505::real) ^ 125 < ((10::real) powr (338 / 125)) ^ 125" by simp
    then show ?thesis by (rule power_less_imp_less_base) simp
  qed
  have "(log 10 (505::real) < 338 / 125) = ((505::real) < 10 powr (338 / 125))"
    by (rule log_less_iff) simp_all
  with hi show "log 10 (505::real) < 338 / 125" by blast
qed

lemma log10_5050000000: "log 10 (5050000000::real) = log 10 505 + 7"
proof -
  have "(5050000000::real) = 505 * 10 ^ 7" by simp
  then have "log 10 (5050000000::real) = log 10 (505 * 10 ^ 7)" by (simp only:)
  also have "\<dots> = log 10 505 + log 10 (10 ^ 7)" by (rule log_mult_pos) simp_all
  also have "log 10 ((10::real) ^ 7) = real 7" by (rule log_pow_cancel) simp_all
  finally show ?thesis by simp
qed

lemma twa_80_100_bounds:
  "97 < 10 * log 10 (5050000000 :: real)" "10 * log 10 (5050000000 :: real) < 97.04"
  using log10_505_bounds by (simp_all add: log10_5050000000)

lemma twa_80_100:
  assumes "0 < d"
  shows "calculateTimeWeightedAverage
           [\<lparr>db = Fin 80, duration = Some (Fin d)\<rparr>, \<lparr>db = Fin 100, duration = Some (Fin d)\<rparr>]
         = Fin (10 * log 10 5050000000)"
proof -
  have "calculateTimeWeightedAverage
          (map (\<lambda>(v, d). \<lparr>db = Fin v, duration = Some (Fin d)\<rparr>) [(80, d), (100, d)])
        = Fin (spec_twa [(80, d), (100, d)])"
    by (rule calculateTimeWeightedAverage_positive) (simp_all add: assms)
  moreover have "spec_energy [(80, d), (100, d)] / spec_total_time [(80, d), (100, d)]
      = 5050000000"
    using assms by (simp add: spec_energy_def spec_total_time_def)
  ultimately show ?thesis by (simp add: spec_twa_def)
qed

text \<open>
  Claim C1, as stated, fails for a measurement of duration zero: the classifier replaces
  a duration of zero by 1. The measurements 80 dB for 0 and 100 dB for 1 have the total
  time 1, and the formula gives 100 dB; the classifier weights both measurements with 1
  and returns \<open>10 * log10 5050000000\<close>, which is below 97.04.
\<close>

theorem twa_zero_duration_counts_as_one:
  "0 < spec_total_time [(80, 0), (100, 1)]
   \<and> spec_twa [(80, 0), (100, 1)] = 100
   \<and> calculateTimeWeightedAverage
        [\<lparr>db = Fin 80, duration = Some (Fin 0)\<rparr>, \<lparr>db = Fin 100, duration = Some (Fin 1)\<rparr>]
      = Fin (10 * log 10 5050000000)
   \<and> calculateTimeWeightedAverage
        [\<lparr>db = Fin 80, duration = Some (Fin 0)\<rparr>, \<lparr>db = Fin 100, duration = Some (Fin 1)\<rparr>]
      \<noteq> Fin (spec_twa [(80, 0), (100, 1)])"
proof -
  have t: "spec_total_time [(80, 0), (100, 1)] = 1"
    by (simp add: spec_total_time_def)
  have "spec_energy [(80, 0), (100, 1)] = 10 ^ 10"
    by (simp add: spec_energy_def)
  then have "spec_twa [(80, 0), (100, 1)] = 10 * log 10 (10 ^ 10)"
    by (simp only: spec_twa_def t div_by_1)
  also have "log 10 ((10::real) ^ 10) = real 10" by (rule log_pow_cancel) simp_all
  finally have s: "spec_twa [(80, 0), (100, 1)] = 100" by simp
  have c: "calculateTimeWeightedAverage
        [\<lparr>db = Fin 80, duration = Some (Fin 0)\<rparr>, \<lparr>db = Fin 100, duration = Some (Fin 1)\<rparr>]
      = Fin (10 * log 10 5050000000)"
    by (simp add: calculateTimeWeightedAverage_def duration_or_1_def js_truthy_def)
  have "10 * log 10 (5050000000::real) \<noteq> 100" using twa_80_100_bounds(2) by simp
  then show ?thesis using t s c by simp
qed

text \<open>
  Claim C1, amended. For every non-empty sequence of measurements with finite levels and
  strictly positive durations, the classifier's time-weighted average is the formula of
  the specification: the energy-weighted mean. For readings with finite levels and
  timestamps in non-decreasing order whose time gaps have a positive total, the
  time-weighted exposure of the extended measurement is the same formula over the
  levels and the gaps to the next reading. For 80 dB and 100 dB held for one and the
  same positive duration the classifier's average is \<open>10 * log10 ((10^8 + 10^10) / 2)\<close>,
  which lies between 97 and 97.04: within 0.05 of 96.99, and not 90.
\<close>

theorem twa_energy_weighted:
  "(vds \<noteq> [] \<and> (\<forall>(v, d)\<in>set vds. 0 < d) \<longrightarrow>
      calculateTimeWeightedAverage
        (map (\<lambda>(v, d). \<lparr>db = Fin v, duration = Some (Fin d)\<rparr>) vds) = Fin (spec_twa vds))
   \<and> (sorted (map fst tvs) \<and> 0 < spec_total_time (spec_intervals tvs) \<longrightarrow>
        map_option exposure_value
          (calculateTimeWeightedExposure
             (map (\<lambda>(t, v). \<lparr>timestamp = t, reading_db = Fin v\<rparr>) tvs))
        = Some (Fin (spec_twa (spec_intervals tvs))))
   \<and> (0 < d \<longrightarrow>
        calculateTimeWeightedAverage
          [\<lparr>db = Fin 80, duration = Some (Fin d)\<rparr>, \<lparr>db = Fin 100, duration = Some (Fin d)\<rparr>]
        = Fin (10 * log 10 ((10 ^ 8 + 10 ^ 10) / 2)))
   \<and> 97 < 10 * log 10 ((10 ^ 8 + 10 ^ 10) / 2 :: real)
   \<and> 10 * log 10 ((10 ^ 8 + 10 ^ 10) / 2 :: real) < 97.04
   \<and> \<bar>10 * log 10 ((10 ^ 8 + 10 ^ 10) / 2 :: real) - 96.99\<bar> < 0.05"
proof -
  have x: "((10 ^ 8 + 10 ^ 10) / 2 :: real) = 5050000000" by simp
  have a: "calculateTimeWeightedAverage
        (map (\<lambda>(v, d). \<lparr>db = Fin v, duration = Some (Fin d)\<rparr>) vds) = Fin (spec_twa vds)"
    if "vds \<noteq> [] \<and> (\<forall>(v, d)\<in>set vds. 0 < d)"
    using that calculateTimeWeightedAverage_positive [of vds] by blast
  have b: "map_option exposure_value
          (calculateTimeWeightedExposure
             (map (\<lambda>(t, v). \<lparr>timestamp = t, reading_db = Fin v\<rparr>) tvs))
        = Some (Fin (spec_twa (spec_intervals tvs)))"
    if "sorted (map fst tvs) \<and> 0 < spec_total_time (spec_intervals tvs)"
    using that calculateTimeWeightedExposure_positive [of tvs] by blast
  have c: "calculateTimeWeightedAverage
          [\<lparr>db = Fin 80, duration = Some (Fin d)\<rparr>, \<lparr>db = Fin 100, duration = Some (Fin d)\<rparr>]
        = Fin (10 * log 10 ((10 ^ 8 + 10 ^ 10) / 2))"
    if "0 < d"
    using that unfolding x by (rule twa_80_100)
  have lo: "97 < 10 * log 10 ((10 ^ 8 + 10 ^ 10) / 2 :: real)"
    unfolding x by (rule twa_80_100_bounds(1))
  have hi: "10 * log 10 ((10 ^ 8 + 10 ^ 10) / 2 :: real) < 97.04"
    unfolding x by (rule twa_80_100_bounds(2))
  have near: "\<bar>10 * log 10 ((10 ^ 8 + 10 ^ 10) / 2 :: real) - 96.99\<bar> < 0.05"
    using lo hi by (simp add: abs_less_iff)
  show ?thesis using a b c lo hi near by blast
qed

theorem twa_energy_weighted_witness:
  "calculateTimeWeightedAverage
     [\<lparr>db = Fin 60, duration = Some (Fin 10)\<rparr>, \<lparr>db = Fin 90, duration = Some (Fin 10)\<rparr>,
      \<lparr>db = Fin 70, duration = Some (Fin 10)\<rparr>]
   = Fin (spec_twa [(60, 10), (90, 10), (70, 10)])
   \<and> map_option exposure_value
       (calculateTimeWeightedExposure
          [\<lparr>timestamp = 0, reading_db = Fin 80\<rparr>, \<lparr>timestamp = 1000, reading_db = Fin 100\<rparr>,
           \<lparr>timestamp = 2000, reading_db = Fin 60\<rparr>])
     = Some (Fin (spec_twa [(80, 1000), (100, 1000)]))
   \<and> calculateTimeWeightedAverage
       [\<lparr>db = Fin 80, duration = Some (Fin 3)\<rparr>, \<lparr>db = Fin 100, duration = Some (Fin 3)\<rparr>]
     = Fin (10 * log 10 5050000000)"
  using twa_energy_weighted [of "[(60, 10), (90, 10), (70, 10)]"
      "[(0, 80), (1000, 100), (2000, 60)]" 3]
  by (simp add: spec_total_time_def)

subsection \<open>Readings without elapsed time\<close>

lemma twe_loop_same_time_Cons:
  "\<forall>r\<in>set (r0 # rs). timestamp r = t0 \<Longrightarrow> snd (twe_loop (r0 # rs) (e, T)) = T"
proof (induction rs arbitrary: r0 e T)
  case Nil
  show ?case by simp
next
  case (Cons r1 rs)
  have eq: "timestamp r1 = timestamp r0" using Cons.prems by simp
  have rest: "\<forall>r\<in>set (r1 # rs). timestamp r = t0" using Cons.prems by simp
  have "twe_loop (r0 # r1 # rs) (e, T) =
          twe_loop (r1 # rs)
            (js_add e (js_mul (js_pow10 (js_div (reading_db r0) (Fin 10))) (Fin 0)), T)"
    by (simp add: eq Let_def)
  then show ?case using Cons.IH [OF rest] by (simp only:)
qed

lemma twe_loop_same_time:
  "\<forall>r\<in>set readings. timestamp r = t0 \<Longrightarrow> snd (twe_loop readings (e, T)) = T"
  by (cases readings) (simp_all only: twe_loop_same_time_Cons, simp)

lemma calculateExposureRisk_zero: "calculateExposureRisk (Fin 0) (Fin 0) = ''minimal''"
  by (simp add: calculateExposureRisk_def js_ge_def js_le_def)

text \<open>
  Claim C5, as stated, fails: for a single reading, and for two readings with one
  timestamp, the time-weighted exposure is reported as the value 0, with the flag of OSHA
  compliance set and the risk \<open>minimal\<close>; there is no status of insufficient data.
\<close>

theorem single_reading_exposure_is_zero:
  "calculateTimeWeightedExposure [\<lparr>timestamp = 0, reading_db = Fin 80\<rparr>]
     = Some \<lparr>exposure_value = Fin 0, exposure_totalTime = 0, exposure_oshaCompliant = True,
             exposureRisk = ''minimal''\<rparr>
   \<and> calculateTimeWeightedExposure
       [\<lparr>timestamp = 7, reading_db = Fin 80\<rparr>, \<lparr>timestamp = 7, reading_db = Fin 100\<rparr>]
     = Some \<lparr>exposure_value = Fin 0, exposure_totalTime = 0, exposure_oshaCompliant = True,
             exposureRisk = ''minimal''\<rparr>"
  by (simp add: calculateTimeWeightedExposure_def calculateExposureRisk_zero)

text \<open>
  Claim C5, amended. For a non-empty set of readings that all share one timestamp, in
  particular for a single reading, \<open>calculateTimeWeightedExposure\<close> returns the value 0
  (not NaN, whatever the levels are) together with a total time of 0, OSHA compliance
  and the risk \<open>minimal\<close>: the total time of 0 is the only mark of the case. The result
  is \<open>null\<close> only when there are no readings. The classifier's
  \<open>calculateTimeWeightedAverage\<close> returns 0 for no measurements, and for a single
  measurement of finite level whose duration is absent or zero it returns that level.
\<close>

theorem zero_time_exposure_is_zero:
  "(readings \<noteq> [] \<and> (\<forall>r\<in>set readings. timestamp r = t0) \<longrightarrow>
      calculateTimeWeightedExposure readings =
        Some \<lparr>exposure_value = Fin 0, exposure_totalTime = 0, exposure_oshaCompliant = True,
              exposureRisk = ''minimal''\<rparr>)
   \<and> calculateTimeWeightedExposure [] = None
   \<and> calculateTimeWeightedAverage [] = Fin 0
   \<and> calculateTimeWeightedAverage [\<lparr>db = Fin v, duration = None\<rparr>] = Fin v
   \<and> calculateTimeWeightedAverage [\<lparr>db = Fin v, duration = Some (Fin 0)\<rparr>] = Fin v"
proof -
  have a: "calculateTimeWeightedExposure readings =
        Some \<lparr>exposure_value = Fin 0, exposure_totalTime = 0, exposure_oshaCompliant = True,
              exposureRisk = ''minimal''\<rparr>"
    if ne: "readings \<noteq> []" and same: "\<forall>r\<in>set readings. timestamp r = t0"
  proof -
    obtain E T where loop: "twe_loop readings (Fin 0, 0) = (E, T)"
      by (cases "twe_loop readings (Fin 0, 0)")
    have "T = 0" using twe_loop_same_time [OF same, of "Fin 0" 0] loop by simp
    then show ?thesis
      using ne loop
      by (simp add: calculateTimeWeightedExposure_def calculateExposureRisk_zero)
  qed
  have b: "calculateTimeWeightedExposure [] = None"
    by (simp add: calculateTimeWeightedExposure_def)
  have c: "calculateTimeWeightedAverage [] = Fin 0"
    by (simp add: calculateTimeWeightedAverage_def)
  have d: "calculateTimeWeightedAverage [\<lparr>db = Fin v, duration = None\<rparr>] = Fin v"
    by (simp add: calculateTimeWeightedAverage_def duration_or_1_def)
  have e: "calculateTimeWeightedAverage [\<lparr>db = Fin v, duration = Some (Fin 0)\<rparr>] = Fin v"
    by (simp add: calculateTimeWeightedAverage_def duration_or_1_def js_truthy_def)
  show ?thesis using a b c d e by blast
qed

theorem zero_time_exposure_is_zero_witness:
  "calculateTimeWeightedExposure
     [\<lparr>timestamp = 5, reading_db = Fin 90\<rparr>, \<lparr>timestamp = 5, reading_db = Fin 95\<rparr>,
      \<lparr>timestamp = 5, reading_db = NaN\<rparr>]
   = Some \<lparr>exposure_value = Fin 0, exposure_totalTime = 0, exposure_oshaCompliant = True,
           exposureRisk = ''minimal''\<rparr>"
  using zero_time_exposure_is_zero [of
     "[\<lparr>timestamp = 5, reading_db = Fin 90\<rparr>, \<lparr>timestamp = 5, reading_db = Fin 95\<rparr>,
      \<lparr>timestamp = 5, reading_db = NaN\<rparr>]" 5]
  by simp

subsection \<open>Compliance flags\<close>

text \<open>
  Two sets of measurements on which the time-weighted average and the arithmetic mean
  part: three measurements of 20 dB and one of 100 dB (mean 40, time-weighted average
  above 90), and one measurement of 50 dB with one of 90 dB (mean 70, time-weighted
  average between 85 and 90).
\<close>

lemma js_le_Fin: "js_le (Fin a) (Fin b) = (a \<le> b)"
  by (auto simp: js_le_def)

lemma twa_quiet_peak:
  "calculateTimeWeightedAverage
     [\<lparr>db = Fin 20, duration = Some (Fin 1)\<rparr>, \<lparr>db = Fin 20, duration = Some (Fin 1)\<rparr>,
      \<lparr>db = Fin 20, duration = Some (Fin 1)\<rparr>, \<lparr>db = Fin 100, duration = Some (Fin 1)\<rparr>]
   = Fin (10 * log 10 2500000075)"
proof -
  have "calculateTimeWeightedAverage
          (map (\<lambda>(v, d). \<lparr>db = Fin v, duration = Some (Fin d)\<rparr>)
             [(20, 1), (20, 1), (20, 1), (100, 1)])
        = Fin (spec_twa [(20, 1), (20, 1), (20, 1), (100, 1)])"
    by (rule calculateTimeWeightedAverage_positive) simp_all
  moreover have "spec_energy [(20, 1), (20, 1), (20, 1), (100, 1)]
      / spec_total_time [(20, 1), (20, 1), (20, 1), (100, 1)] = 2500000075"
    by (simp add: spec_energy_def spec_total_time_def)
  ultimately show ?thesis by (simp add: spec_twa_def)
qed

lemma twa_quiet_peak_above_90: "90 < 10 * log 10 (2500000075 :: real)"
proof -
  have "(9 < log 10 (2500000075::real)) = (10 powr 9 < (2500000075::real))"
    by (rule less_log_iff) simp_all
  then have "9 < log 10 (2500000075::real)" by simp
  then show ?thesis by simp
qed

lemma twa_50_90:
  "calculateTimeWeightedAverage
     [\<lparr>db = Fin 50, duration = Some (Fin 1)\<rparr>, \<lparr>db = Fin 90, duration = Some (Fin 1)\<rparr>]
   = Fin (10 * log 10 500050000)"
proof -
  have "calculateTimeWeightedAverage
          (map (\<lambda>(v, d). \<lparr>db = Fin v, duration = Some (Fin d)\<rparr>) [(50, 1), (90, 1)])
        = Fin (spec_twa [(50, 1), (90, 1)])"
    by (rule calculateTimeWeightedAverage_positive) simp_all
  moreover have "spec_energy [(50, 1), (90, 1)] / spec_total_time [(50, 1), (90, 1)]
      = 500050000"
    by (simp add: spec_energy_def spec_total_time_def)
  ultimately show ?thesis by (simp add: spec_twa_def)
qed

lemma twa_50_90_bounds:
  "85 < 10 * log 10 (500050000 :: real)" "10 * log 10 (500050000 :: real) \<le> 90"
proof -
  have lo: "(10::real) powr (17 / 2) < 500050000"
  proof -
    have "((10::real) powr (17 / 2)) ^ 2 = 10 powr 17"
      by (simp add: powr_powr flip: powr_realpow)
    also have "\<dots> = 10 ^ 17" by simp
    also have "\<dots> < (500050000::real) ^ 2" by simp
    finally have "((10::real) powr (17 / 2)) ^ 2 < 500050000 ^ 2" .
    then show ?thesis by (rule power_less_imp_less_base) simp
  qed
  have "(17 / 2 < log 10 (500050000::real)) = (10 powr (17 / 2) < (500050000::real))"
    by (rule less_log_iff) simp_all
  with lo have "17 / 2 < log 10 (500050000::real)" by blast
  then show "85 < 10 * log 10 (500050000::real)" by simp
  have "(log 10 (500050000::real) \<le> 9) = ((500050000::real) \<le> 10 powr 9)"
    by (rule log_le_iff) simp_all
  then have "log 10 (500050000::real) \<le> 9" by simp
  then show "10 * log 10 (500050000::real) \<le> 90" by simp
qed

lemma exposure_at_87:
  "calculateTimeWeightedExposure
     [\<lparr>timestamp = 0, reading_db = Fin 87\<rparr>, \<lparr>timestamp = 1000, reading_db = Fin 87\<rparr>]
   = Some \<lparr>exposure_value = Fin 87, exposure_totalTime = 1, exposure_oshaCompliant = False,
           exposureRisk = ''low''\<rparr>"
  by (simp add: calculateTimeWeightedExposure_def calculateExposureRisk_def js_ge_def js_le_def
      js_gt_def Let_def)

text \<open>
  Claim C6, as stated, fails for two of the three summaries. At a time-weighted average
  of 87 dB, which is at most 90, the premium health analysis reports no OSHA compliance,
  and so does the time-weighted exposure of the extended measurement (two readings of
  87 dB one second apart have the time-weighted level 87).
\<close>

theorem osha_flag_at_87:
  "js_le (Fin 87) (Fin 90)
   \<and> analysis_oshaCompliant (generatePremiumHealthAnalysis (Fin 87) (Fin 30) (Fin 87)) = False
   \<and> calculateTimeWeightedExposure
       [\<lparr>timestamp = 0, reading_db = Fin 87\<rparr>, \<lparr>timestamp = 1000, reading_db = Fin 87\<rparr>]
     = Some \<lparr>exposure_value = Fin 87, exposure_totalTime = 1, exposure_oshaCompliant = False,
             exposureRisk = ''low''\<rparr>"
  by (simp add: exposure_at_87) (simp add: generatePremiumHealthAnalysis_def js_le_def)

text \<open>
  Claim C6, amended. For a non-empty set of measurements the health dashboard is
  produced, and its three compliance flags are three separate tests against two
  statistics: \<open>osha\<close> holds exactly when the time-weighted average is at most 90,
  \<open>niosh\<close> exactly when the time-weighted average is at most 85, and \<open>who\<close> exactly when
  the arithmetic mean of the levels is at most 55. The other two summaries test OSHA
  compliance against 85: in the premium health analysis \<open>oshaCompliant\<close> and
  \<open>nioshCompliant\<close> both hold exactly when the time-weighted average is at most 85, and
  in the time-weighted exposure of the extended measurement \<open>oshaCompliant\<close> holds
  exactly when the time-weighted level is below 85.
\<close>

theorem compliance_flags_thresholds:
  "(measurements \<noteq> [] \<longrightarrow>
      (case generateHealthDashboard measurements cur of
         InsufficientData \<Rightarrow> False
       | Dashboard d \<Rightarrow>
           osha (compliance d) = js_le (calculateTimeWeightedAverage measurements) (Fin 90)
         \<and> niosh (compliance d) = js_le (calculateTimeWeightedAverage measurements) (Fin 85)
         \<and> who (compliance d) =
             js_le (js_div (foldl js_add (Fin 0) (map db measurements))
                      (Fin (real (length measurements)))) (Fin 55)))
   \<and> analysis_oshaCompliant (generatePremiumHealthAnalysis dbLevel dur twa) = js_le twa (Fin 85)
   \<and> nioshCompliant (generatePremiumHealthAnalysis dbLevel dur twa) = js_le twa (Fin 85)
   \<and> (case calculateTimeWeightedExposure readings of
         None \<Rightarrow> readings = []
       | Some e \<Rightarrow> exposure_oshaCompliant e = js_lt (exposure_value e) (Fin 85))"
proof -
  have a: "case generateHealthDashboard measurements cur of
         InsufficientData \<Rightarrow> False
       | Dashboard d \<Rightarrow>
           osha (compliance d) = js_le (calculateTimeWeightedAverage measurements) (Fin 90)
         \<and> niosh (compliance d) = js_le (calculateTimeWeightedAverage measurements) (Fin 85)
         \<and> who (compliance d) =
             js_le (js_div (foldl js_add (Fin 0) (map db measurements))
                      (Fin (real (length measurements)))) (Fin 55)"
    if "measurements \<noteq> []"
    using that by (simp add: generateHealthDashboard_def Let_def)
  have b: "analysis_oshaCompliant (generatePremiumHealthAnalysis dbLevel dur twa)
      = js_le twa (Fin 85)"
    "nioshCompliant (generatePremiumHealthAnalysis dbLevel dur twa) = js_le twa (Fin 85)"
    by (simp_all add: generatePremiumHealthAnalysis_def)
  have c: "case calculateTimeWeightedExposure readings of
         None \<Rightarrow> readings = []
       | Some e \<Rightarrow> exposure_oshaCompliant e = js_lt (exposure_value e) (Fin 85)"
    by (simp add: calculateTimeWeightedExposure_def Let_def split: prod.splits)
  show ?thesis using a b c by blast
qed

theorem compliance_flags_thresholds_witness:
  "(case generateHealthDashboard
       [\<lparr>db = Fin 20, duration = Some (Fin 1)\<rparr>, \<lparr>db = Fin 20, duration = Some (Fin 1)\<rparr>,
        \<lparr>db = Fin 20, duration = Some (Fin 1)\<rparr>, \<lparr>db = Fin 100, duration = Some (Fin 1)\<rparr>]
       (Fin 100) of
      InsufficientData \<Rightarrow> False
    | Dashboard d \<Rightarrow> \<not> osha (compliance d) \<and> \<not> niosh (compliance d) \<and> who (compliance d))
   \<and> (case generateHealthDashboard
       [\<lparr>db = Fin 50, duration = Some (Fin 1)\<rparr>, \<lparr>db = Fin 90, duration = Some (Fin 1)\<rparr>]
       (Fin 90) of
      InsufficientData \<Rightarrow> False
    | Dashboard d \<Rightarrow> osha (compliance d) \<and> \<not> niosh (compliance d) \<and> \<not> who (compliance d))
   \<and> \<not> analysis_oshaCompliant (generatePremiumHealthAnalysis (Fin 87) (Fin 30) (Fin 87))
   \<and> analysis_oshaCompliant (generatePremiumHealthAnalysis (Fin 85) (Fin 30) (Fin 85))
   \<and> (case calculateTimeWeightedExposure
          [\<lparr>timestamp = 0, reading_db = Fin 87\<rparr>, \<lparr>timestamp = 1000, reading_db = Fin 87\<rparr>] of
        None \<Rightarrow> False
      | Some e \<Rightarrow> exposure_value e = Fin 87 \<and> \<not> exposure_oshaCompliant e)"
proof -
  let ?quiet_peak =
    "[\<lparr>db = Fin 20, duration = Some (Fin 1)\<rparr>, \<lparr>db = Fin 20, duration = Some (Fin 1)\<rparr>,
      \<lparr>db = Fin 20, duration = Some (Fin 1)\<rparr>, \<lparr>db = Fin 100, duration = Some (Fin 1)\<rparr>]"
  let ?mixed = "[\<lparr>db = Fin 50, duration = Some (Fin 1)\<rparr>, \<lparr>db = Fin 90, duration = Some (Fin 1)\<rparr>]"
  let ?two = "[\<lparr>timestamp = 0, reading_db = Fin 87\<rparr>, \<lparr>timestamp = 1000, reading_db = Fin 87\<rparr>]"
  have qp: "\<not> js_le (calculateTimeWeightedAverage ?quiet_peak) (Fin 90)"
    "\<not> js_le (calculateTimeWeightedAverage ?quiet_peak) (Fin 85)"
    using twa_quiet_peak_above_90 by (simp_all add: twa_quiet_peak js_le_Fin)
  have mx: "js_le (calculateTimeWeightedAverage ?mixed) (Fin 90)"
    "\<not> js_le (calculateTimeWeightedAverage ?mixed) (Fin 85)"
    using twa_50_90_bounds by (simp_all add: twa_50_90 js_le_Fin)
  have mean: "js_le (js_div (foldl js_add (Fin 0) (map db ?quiet_peak))
                  (Fin (real (length ?quiet_peak)))) (Fin 55)"
    "\<not> js_le (js_div (foldl js_add (Fin 0) (map db ?mixed)) (Fin (real (length ?mixed))))
        (Fin 55)"
    by (simp_all add: js_le_def)
  have ex: "calculateTimeWeightedExposure ?two
     = Some \<lparr>exposure_value = Fin 87, exposure_totalTime = 1, exposure_oshaCompliant = False,
             exposureRisk = ''low''\<rparr>"
    by (rule exposure_at_87)
  have one: "case generateHealthDashboard ?quiet_peak (Fin 100) of
      InsufficientData \<Rightarrow> False
    | Dashboard d \<Rightarrow> \<not> osha (compliance d) \<and> \<not> niosh (compliance d) \<and> who (compliance d)"
    using compliance_flags_thresholds [of ?quiet_peak "Fin 100" "Fin 87" "Fin 30" "Fin 87" ?two]
      qp mean(1)
    by (auto split: dashboard_result.splits)
  have two: "case generateHealthDashboard ?mixed (Fin 90) of
      InsufficientData \<Rightarrow> False
    | Dashboard d \<Rightarrow> osha (compliance d) \<and> \<not> niosh (compliance d) \<and> \<not> who (compliance d)"
    using compliance_flags_thresholds [of ?mixed "Fin 90" "Fin 85" "Fin 30" "Fin 85" ?two]
      mx mean(2)
    by (auto split: dashboard_result.splits)
  have three: "\<not> analysis_oshaCompliant (generatePremiumHealthAnalysis (Fin 87) (Fin 30) (Fin 87))"
    "analysis_oshaCompliant (generatePremiumHealthAnalysis (Fin 85) (Fin 30) (Fin 85))"
    using compliance_flags_thresholds [of ?quiet_peak "Fin 100" "Fin 87" "Fin 30" "Fin 87" ?two]
      compliance_flags_thresholds [of ?mixed "Fin 90" "Fin 85" "Fin 30" "Fin 85" ?two]
    by (simp_all add: js_le_def)
  have four: "case calculateTimeWeightedExposure ?two of
        None \<Rightarrow> False
      | Some e \<Rightarrow> exposure_value e = Fin 87 \<and> \<not> exposure_oshaCompliant e"
    using compliance_flags_thresholds [of ?quiet_peak "Fin 100" "Fin 87" "Fin 30" "Fin 87" ?two]
    by (simp add: ex)
  show ?thesis using one two three four by blast
qed

end
